theory Spec2Isabelle
  imports Main
begin

section \<open>Bolter: multi-platform binaries as OCI artifacts\<close>

text \<open>
  A shallow embedding of the push, pull and run paths of bolter. Go strings and byte
  slices are byte sequences, so both are modelled as \<open>string\<close> (a list of 8-bit
  characters).
\<close>

type_synonym bytes = string

subsection \<open>Media types (cmd/push.go, getMediaTypeForPlatform)\<close>

definition getMediaTypeForPlatform :: "string \<Rightarrow> string \<Rightarrow> string" where
  "getMediaTypeForPlatform goos goarch =
     (if goos = ''js'' \<or> goos = ''wasip1'' \<or> goarch = ''wasm''
        then ''application/vnd.bolter.wasm.v1''
      else if goos = ''windows'' then ''application/vnd.bolter.windows.exe.v1''
      else if goos = ''darwin'' then ''application/vnd.bolter.macho.v1''
      else if goos \<in> set [''linux'', ''freebsd'', ''openbsd'', ''netbsd'', ''dragonfly'',
                           ''solaris'', ''illumos'']
        then ''application/vnd.bolter.elf.v1''
      else if goos = ''plan9'' then ''application/vnd.bolter.plan9.v1''
      else if goos = ''aix'' then ''application/vnd.bolter.xcoff.v1''
      else ''application/vnd.bolter.binary.v1'')"

subsection \<open>Data model (ocispec descriptors, manifests and indexes)\<close>

record platform =
  OS :: string
  Architecture :: string

record descriptor =
  MediaType :: string
  Digest :: string
  Size :: int
  Annotations :: "(string \<times> string) list"
  Platform :: "platform option"

record manifest =
  Config :: descriptor
  Layers :: "descriptor list"

record index =
  Manifests :: "descriptor list"

definition MediaTypeImageIndex :: string where
  "MediaTypeImageIndex = ''application/vnd.oci.image.index.v1+json''"

definition MediaTypeImageManifest :: string where
  "MediaTypeImageManifest = ''application/vnd.oci.image.manifest.v1+json''"

definition MediaTypeImageConfig :: string where
  "MediaTypeImageConfig = ''application/vnd.oci.image.config.v1+json''"

record reference =
  Registry :: string
  Repository :: string
  Reference :: string

record credential =
  Username :: string
  Password :: string

text \<open>
  A \<open>remote.Repository\<close>: the parsed reference, the plain-HTTP flag and the client.
  \<open>Client = None\<close> is the default, unauthenticated client; \<open>Some c\<close> is an
  \<open>auth.Client\<close> with the static credential \<open>c\<close>.
\<close>

record repository =
  Ref :: reference
  PlainHTTP :: bool
  Client :: "credential option"

record cacheMetadata =
  mRegistry :: string
  mRepository :: string
  mTag :: string
  mOS :: string
  mArchitecture :: string
  mDigest :: string
  mSize :: int
  mCachedAt :: int

record BinaryInfo =
  Path :: string
  bDigest :: string
  bSize :: int
  bOS :: string
  bArchitecture :: string
  Cached :: bool

subsection \<open>Errors and effects\<close>

text \<open>
  Every error the code returns is a value. \<open>Wrap msg e\<close> is
  \<open>fmt.Errorf(msg + ": %w", e)\<close>.
\<close>

datatype error =
    ErrHomeDir
  | ErrNotExist string
  | ErrMkdir string
  | ErrCreate string
  | ErrInvalidReference string
  | ErrNotFound string
  | ErrUnmarshal
  | ErrNoManifestFound string string
  | ErrUnsupportedMediaType string
  | ErrNoLayers
  | ErrOutputRequired
  | ErrLookPath string
  | ErrExec string
  | ErrExitCode int
  | ErrRun string
  | ErrNoBin
  | ErrInvalidPlatformFormat string
  | ErrFileNotFound string
  | ErrAlreadyExists
  | ErrVerify
  | ErrDepth
  | Wrap string error

text \<open>What running a child process does: it exits with 0, exits with another code, or
  cannot be started.\<close>

datatype run_result = RunOK | RunExit int | RunFail

text \<open>
  The observable operations on the outside world, in the order they happen: reads of the
  Docker credential file, registry requests (resolve and fetch, with registry, repository
  and tag or digest) and process launches.
\<close>

datatype event =
    EvReadDockerConfig string
  | EvResolve string string string
  | EvFetch string string string
  | EvSyscallExec string "string list"
  | EvCommandRun string "string list"

fun is_registry_op :: "event \<Rightarrow> bool" where
  "is_registry_op (EvResolve _ _ _) = True"
| "is_registry_op (EvFetch _ _ _) = True"
| "is_registry_op _ = False"

text \<open>
  A registry repository holds blobs and manifests, each by digest, and tags. Which of the
  two a descriptor refers to is decided by its media type, as the registry client does.
\<close>

record store =
  blobs :: "string \<rightharpoonup> bytes"
  manifests :: "string \<rightharpoonup> bytes"
  tags :: "string \<rightharpoonup> descriptor"

definition is_manifest_type :: "string \<Rightarrow> bool" where
  "is_manifest_type mt =
     (mt \<in> set [''application/vnd.docker.distribution.manifest.v2+json'',
                 ''application/vnd.docker.distribution.manifest.list.v2+json'',
                 ''application/vnd.oci.image.manifest.v1+json'',
                 ''application/vnd.oci.image.index.v1+json'',
                 ''application/vnd.oci.artifact.manifest.v1+json''])"

definition store_lookup :: "store \<Rightarrow> descriptor \<Rightarrow> bytes option" where
  "store_lookup st desc =
     (if is_manifest_type (MediaType desc) then manifests st (Digest desc)
      else blobs st (Digest desc))"

text \<open>
  The world a command runs in: the host platform (\<open>runtime.GOOS\<close>,
  \<open>runtime.GOARCH\<close>), the home directory (\<open>None\<close> when \<open>os.UserHomeDir\<close>
  fails), the regular files with their contents, the paths at which \<open>os.MkdirAll\<close>
  and \<open>os.Create\<close> fail, the registries (by registry host and repository name), the
  clock, how executables behave, and the trace of events so far. Directories and file
  modes are not tracked.
\<close>

record world =
  GOOS :: string
  GOARCH :: string
  home :: "string option"
  files :: "string \<rightharpoonup> bytes"
  mkdir_fails :: "string \<Rightarrow> bool"
  create_fails :: "string \<Rightarrow> bool"
  stores :: "string \<times> string \<Rightarrow> store"
  now :: int
  lookpath :: "string \<rightharpoonup> string"
  syscall_exec_fails :: "string \<Rightarrow> bool"
  run_outcome :: "string \<Rightarrow> string list \<Rightarrow> run_result"
  trace :: "event list"

text \<open>
  The library functions the code calls and this repository does not define, taken as
  parameters: \<open>digest.FromBytes\<close>, \<open>json.Unmarshal\<close> at the types it is used
  at, \<open>json.MarshalIndent\<close> of a cache metadata record,
  \<open>base64.StdEncoding.DecodeString\<close> and the reference parser behind
  \<open>remote.NewRepository\<close>. A decoder returns \<open>None\<close> where the library returns
  an error.
\<close>

record extern =
  digest_FromBytes :: "bytes \<Rightarrow> string"
  unmarshal_Index :: "bytes \<Rightarrow> index option"
  unmarshal_Manifest :: "bytes \<Rightarrow> manifest option"
  unmarshal_dockerConfig :: "bytes \<Rightarrow> (string \<rightharpoonup> string) option"
  unmarshal_cacheMetadata :: "bytes \<Rightarrow> cacheMetadata option"
  marshal_cacheMetadata :: "cacheMetadata \<Rightarrow> bytes"
  base64_DecodeString :: "string \<Rightarrow> string option"
  ParseReference :: "string \<Rightarrow> reference option"

subsection \<open>Strings and paths (Go's strings and path/filepath, Unix)\<close>

definition strings_ReplaceAll_char :: "string \<Rightarrow> char \<Rightarrow> char \<Rightarrow> string" where
  "strings_ReplaceAll_char s old new = map (\<lambda>c. if c = old then new else c) s"

definition strings_HasPrefix :: "string \<Rightarrow> string \<Rightarrow> bool" where
  "strings_HasPrefix s p = (take (length p) s = p)"

definition strings_TrimPrefix :: "string \<Rightarrow> string \<Rightarrow> string" where
  "strings_TrimPrefix s p = (if strings_HasPrefix s p then drop (length p) s else s)"

fun strings_Contains :: "string \<Rightarrow> string \<Rightarrow> bool" where
  "strings_Contains [] sub = (sub = [])"
| "strings_Contains (c # s) sub = (strings_HasPrefix (c # s) sub \<or> strings_Contains s sub)"

text \<open>\<open>strings.Split(s, "/")\<close>: the pieces between the separators, at least one.\<close>

fun split_slash :: "string \<Rightarrow> string list" where
  "split_slash [] = [[]]"
| "split_slash (c # s) =
     (if c = CHR ''/'' then [] # split_slash s
      else (case split_slash s of [] \<Rightarrow> [[c]] | x # xs \<Rightarrow> (c # x) # xs))"

text \<open>
  \<open>filepath.Clean\<close>, element by element: empty and \<open>.\<close> elements are dropped, a
  \<open>..\<close> removes the element before it when there is one that is not itself
  \<open>..\<close>, is dropped at the root, and is kept otherwise. \<open>acc\<close> holds the elements
  kept so far, last first.
\<close>

fun clean_elems :: "bool \<Rightarrow> string list \<Rightarrow> string list \<Rightarrow> string list" where
  "clean_elems rooted acc [] = rev acc"
| "clean_elems rooted acc (e # es) =
     (if e = [] \<or> e = ''.'' then clean_elems rooted acc es
      else if e = ''..'' then
        (case acc of
           [] \<Rightarrow> if rooted then clean_elems rooted [] es else clean_elems rooted [''..''] es
         | a # as \<Rightarrow>
             if a = ''..'' then clean_elems rooted (''..'' # a # as) es
             else clean_elems rooted as es)
      else clean_elems rooted (e # acc) es)"

fun join_slash :: "string list \<Rightarrow> string" where
  "join_slash [] = []"
| "join_slash [e] = e"
| "join_slash (e # es) = e @ ''/'' @ join_slash es"

definition filepath_Clean :: "string \<Rightarrow> string" where
  "filepath_Clean path =
     (if path = [] then ''.''
      else
        let rooted = (hd path = CHR ''/'');
            out = (if rooted then ''/'' else []) @ join_slash (clean_elems rooted [] (split_slash path))
        in if out = [] then ''.'' else out)"

definition filepath_Join :: "string list \<Rightarrow> string" where
  "filepath_Join elems =
     (let es = filter (\<lambda>e. e \<noteq> []) elems
      in if es = [] then [] else filepath_Clean (join_slash es))"

definition filepath_Dir :: "string \<Rightarrow> string" where
  "filepath_Dir path = filepath_Clean (rev (dropWhile (\<lambda>c. c \<noteq> CHR ''/'') (rev path)))"


subsection \<open>Operating-system and registry primitives\<close>

definition os_UserHomeDir :: "world \<Rightarrow> error + string" where
  "os_UserHomeDir w = (case home w of None \<Rightarrow> Inl ErrHomeDir | Some h \<Rightarrow> Inr h)"

definition os_ReadFile :: "world \<Rightarrow> string \<Rightarrow> error + bytes" where
  "os_ReadFile w path = (case files w path of None \<Rightarrow> Inl (ErrNotExist path) | Some b \<Rightarrow> Inr b)"

text \<open>\<open>os.Stat\<close>: the size of the file, or an error when there is none.\<close>

definition os_Stat :: "world \<Rightarrow> string \<Rightarrow> error + int" where
  "os_Stat w path =
     (case files w path of None \<Rightarrow> Inl (ErrNotExist path) | Some b \<Rightarrow> Inr (int (length b)))"

definition os_MkdirAll :: "world \<Rightarrow> string \<Rightarrow> error option" where
  "os_MkdirAll w dir = (if mkdir_fails w dir then Some (ErrMkdir dir) else None)"

definition os_Chmod :: "world \<Rightarrow> string \<Rightarrow> error option" where
  "os_Chmod w path = (case files w path of None \<Rightarrow> Some (ErrNotExist path) | Some _ \<Rightarrow> None)"

text \<open>\<open>os.Create\<close> followed by writing \<open>data\<close> (\<open>io.Copy\<close>, \<open>os.WriteFile\<close>): the
  file is replaced, unless it cannot be created.\<close>

definition write_file :: "world \<Rightarrow> string \<Rightarrow> bytes \<Rightarrow> (error option) \<times> world" where
  "write_file w path data =
     (if create_fails w path then (Some (ErrCreate path), w)
      else (None, w\<lparr>files := (files w)(path \<mapsto> data)\<rparr>))"

definition log_event :: "event \<Rightarrow> world \<Rightarrow> world" where
  "log_event e w = w\<lparr>trace := trace w @ [e]\<rparr>"

definition repo_store :: "world \<Rightarrow> repository \<Rightarrow> store" where
  "repo_store w repo = stores w (Registry (Ref repo), Repository (Ref repo))"

text \<open>\<open>repo.Resolve\<close>: the descriptor a tag points to.\<close>

definition repo_Resolve :: "world \<Rightarrow> repository \<Rightarrow> string \<Rightarrow> (error + descriptor) \<times> world" where
  "repo_Resolve w repo tag =
     (let w' = log_event (EvResolve (Registry (Ref repo)) (Repository (Ref repo)) tag) w
      in case tags (repo_store w repo) tag of
           None \<Rightarrow> (Inl (ErrNotFound tag), w')
         | Some d \<Rightarrow> (Inr d, w'))"

text \<open>\<open>repo.Fetch\<close> followed by \<open>io.ReadAll\<close>: the bytes stored under the
  descriptor's digest, among the manifests or among the blobs.\<close>

definition repo_Fetch :: "world \<Rightarrow> repository \<Rightarrow> descriptor \<Rightarrow> (error + bytes) \<times> world" where
  "repo_Fetch w repo desc =
     (let w' = log_event (EvFetch (Registry (Ref repo)) (Repository (Ref repo)) (Digest desc)) w
      in case store_lookup (repo_store w repo) desc of
           None \<Rightarrow> (Inl (ErrNotFound (Digest desc)), w')
         | Some b \<Rightarrow> (Inr b, w'))"

subsection \<open>Platform strings (pkg/bolter and cmd/util.go, parsePlatform)\<close>

text \<open>The loop over the characters: \<open>pre\<close> is \<open>platform[:i]\<close>, and at the first
  slash the rest is \<open>platform[i+1:]\<close>.\<close>

fun parsePlatform_loop :: "string \<Rightarrow> string \<Rightarrow> (string \<times> string) option" where
  "parsePlatform_loop pre [] = None"
| "parsePlatform_loop pre (ch # rest) =
     (if ch = CHR ''/'' then Some (pre, rest) else parsePlatform_loop (pre @ [ch]) rest)"

definition parsePlatform :: "world \<Rightarrow> string \<Rightarrow> string \<times> string" where
  "parsePlatform w platform =
     (if platform = [] then (GOOS w, GOARCH w)
      else (case parsePlatform_loop [] platform of
              Some r \<Rightarrow> r
            | None \<Rightarrow> (GOOS w, GOARCH w)))"

definition cmd_parsePlatform :: "world \<Rightarrow> string \<Rightarrow> string \<times> string" where
  "cmd_parsePlatform w platform =
     (case parsePlatform_loop [] platform of
        Some r \<Rightarrow> r
      | None \<Rightarrow> (GOOS w, GOARCH w))"

subsection \<open>Repositories and credentials\<close>

definition createRepository :: "extern \<Rightarrow> string \<Rightarrow> bool \<Rightarrow> error + repository" where
  "createRepository X ref insecure =
     (let first = hd (split_slash ref);
          ref' = (if \<not> strings_Contains first ''.'' \<and> \<not> strings_Contains first '':''
                  then ''docker.io/'' @ ref else ref)
      in case ParseReference X ref' of
           None \<Rightarrow> Inl (ErrInvalidReference ref')
         | Some r \<Rightarrow> Inr \<lparr>Ref = r, PlainHTTP = insecure, Client = None\<rparr>)"

definition normalizeRegistry :: "string \<Rightarrow> string" where
  "normalizeRegistry registry =
     (let r = strings_TrimPrefix (strings_TrimPrefix registry ''https://'') ''http://''
      in if r = ''docker.io'' \<or> r = ''index.docker.io'' then ''https://index.docker.io/v1/''
         else r)"

definition registryKeys :: "string \<Rightarrow> string list" where
  "registryKeys registry =
     [registry, normalizeRegistry registry, ''https://'' @ registry,
      strings_TrimPrefix registry ''docker.io/''] @
     (if strings_Contains registry ''docker.io'' \<or> registry = ''docker.io''
      then [''https://index.docker.io/v1/'', ''index.docker.io'', ''docker.io'']
      else [])"

text \<open>\<open>strings.SplitN(s, ":", 2)\<close> has two parts exactly when \<open>s\<close> has a colon: the
  text before the first colon and the text after it.\<close>

definition splitN2_colon :: "string \<Rightarrow> (string \<times> string) option" where
  "splitN2_colon s =
     (if CHR '':'' \<in> set s
      then Some (takeWhile (\<lambda>c. c \<noteq> CHR '':'') s, tl (dropWhile (\<lambda>c. c \<noteq> CHR '':'') s))
      else None)"

text \<open>The loop over the candidate keys of \<open>getDockerCredentials\<close>.\<close>

fun lookup_keys :: "extern \<Rightarrow> (string \<rightharpoonup> string) \<Rightarrow> string list \<Rightarrow> (string \<times> string) option" where
  "lookup_keys X auths [] = None"
| "lookup_keys X auths (key # keys) =
     (case auths key of
        None \<Rightarrow> lookup_keys X auths keys
      | Some a \<Rightarrow>
          if a = [] then lookup_keys X auths keys
          else (case base64_DecodeString X a of
                  None \<Rightarrow> lookup_keys X auths keys
                | Some decoded \<Rightarrow>
                    (case splitN2_colon decoded of
                       Some up \<Rightarrow> Some up
                     | None \<Rightarrow> lookup_keys X auths keys)))"

text \<open>\<open>getDockerCredentials\<close>: \<open>None\<close> is \<open>found = false\<close>. The function has no error
  result. Reading the credential file is recorded in the trace.\<close>

definition getDockerCredentials :: "extern \<Rightarrow> world \<Rightarrow> string \<Rightarrow> (string \<times> string) option \<times> world" where
  "getDockerCredentials X w registry =
     (case os_UserHomeDir w of
        Inl _ \<Rightarrow> (None, w)
      | Inr homeDir \<Rightarrow>
          let configPath = filepath_Join [homeDir, ''.docker'', ''config.json''];
              w' = log_event (EvReadDockerConfig configPath) w
          in case os_ReadFile w configPath of
               Inl _ \<Rightarrow> (None, w')
             | Inr data \<Rightarrow>
                 (case unmarshal_dockerConfig X data of
                    None \<Rightarrow> (None, w')
                  | Some auths \<Rightarrow> (lookup_keys X auths (registryKeys registry), w')))"

text \<open>\<open>setupAuth\<close>: the error result (always nil), the repository with its client, and
  the world.\<close>

definition setupAuth :: "extern \<Rightarrow> world \<Rightarrow> repository \<Rightarrow> string \<Rightarrow> string \<Rightarrow> error option \<times> repository \<times> world" where
  "setupAuth X w repo username password =
     (let (up, w') =
            (if username = [] \<or> password = [] then
               (case getDockerCredentials X w (Registry (Ref repo)) of
                  (Some (dockerUser, dockerPass), w1) \<Rightarrow> ((dockerUser, dockerPass), w1)
                | (None, w1) \<Rightarrow> ((username, password), w1))
             else ((username, password), w));
          repo' = (if fst up \<noteq> [] \<and> snd up \<noteq> []
                   then repo\<lparr>Client := Some \<lparr>Username = fst up, Password = snd up\<rparr>\<rparr>
                   else repo)
      in (None, repo', w'))"

subsection \<open>Selecting the manifest of a platform\<close>

text \<open>The scan of \<open>index.Manifests\<close> in \<open>findManifestForPlatform\<close>.\<close>

fun scan_manifests :: "descriptor list \<Rightarrow> string \<Rightarrow> string \<Rightarrow> descriptor option" where
  "scan_manifests [] targetOS targetArch = None"
| "scan_manifests (m # ms) targetOS targetArch =
     (case Platform m of
        None \<Rightarrow> scan_manifests ms targetOS targetArch
      | Some p \<Rightarrow>
          if OS p = targetOS \<and> Architecture p = targetArch then Some m
          else scan_manifests ms targetOS targetArch)"

definition findManifestForPlatform ::
  "extern \<Rightarrow> world \<Rightarrow> repository \<Rightarrow> descriptor \<Rightarrow> string \<Rightarrow> string \<Rightarrow> (error + descriptor) \<times> world" where
  "findManifestForPlatform X w repo indexDesc targetOS targetArch =
     (case repo_Fetch w repo indexDesc of
        (Inl e, w') \<Rightarrow> (Inl e, w')
      | (Inr indexBytes, w') \<Rightarrow>
          (case unmarshal_Index X indexBytes of
             None \<Rightarrow> (Inl ErrUnmarshal, w')
           | Some idx \<Rightarrow>
               (case scan_manifests (Manifests idx) targetOS targetArch of
                  Some m \<Rightarrow> (Inr m, w')
                | None \<Rightarrow> (Inl (ErrNoManifestFound targetOS targetArch), w'))))"

text \<open>
  The choice of the manifest descriptor from the resolved top-level descriptor; \<open>Pull\<close>
  and \<open>Run\<close> contain the same block.
\<close>

definition selectManifest ::
  "extern \<Rightarrow> world \<Rightarrow> repository \<Rightarrow> descriptor \<Rightarrow> string \<Rightarrow> string \<Rightarrow> (error + descriptor) \<times> world" where
  "selectManifest X w repo desc targetOS targetArch =
     (if MediaType desc = MediaTypeImageIndex then
        (case findManifestForPlatform X w repo desc targetOS targetArch of
           (Inl e, w') \<Rightarrow> (Inl (Wrap ''failed to find manifest for platform'' e), w')
         | (Inr m, w') \<Rightarrow> (Inr m, w'))
      else if MediaType desc = MediaTypeImageManifest then (Inr desc, w)
      else (Inl (ErrUnsupportedMediaType (MediaType desc)), w))"

subsection \<open>Downloading the binary (pullBinary)\<close>

definition pullBinary ::
  "extern \<Rightarrow> world \<Rightarrow> repository \<Rightarrow> descriptor \<Rightarrow> string \<Rightarrow> error option \<times> world" where
  "pullBinary X w repo manifestDesc output =
     (case repo_Fetch w repo manifestDesc of
        (Inl e, w1) \<Rightarrow> (Some e, w1)
      | (Inr manifestBytes, w1) \<Rightarrow>
          (case unmarshal_Manifest X manifestBytes of
             None \<Rightarrow> (Some ErrUnmarshal, w1)
           | Some m \<Rightarrow>
               (case Layers m of
                  [] \<Rightarrow> (Some ErrNoLayers, w1)
                | layerDesc # _ \<Rightarrow>
                    (case repo_Fetch w1 repo layerDesc of
                       (Inl e, w2) \<Rightarrow> (Some e, w2)
                     | (Inr layerBytes, w2) \<Rightarrow>
                         let outputDir = filepath_Dir output
                         in (case (if outputDir \<noteq> ''.'' \<and> outputDir \<noteq> []
                                   then os_MkdirAll w2 outputDir else None) of
                               Some e \<Rightarrow> (Some e, w2)
                             | None \<Rightarrow> write_file w2 output layerBytes)))))"

subsection \<open>Running the binary (executeBinary)\<close>

text \<open>With \<open>useExec\<close> a successful \<open>syscall.Exec\<close> replaces the process and never
  returns; the model records the launch and reports no error.\<close>

definition executeBinary :: "world \<Rightarrow> string \<Rightarrow> string list \<Rightarrow> bool \<Rightarrow> error option \<times> world" where
  "executeBinary w binaryPath args useExec =
     (case lookpath w binaryPath of
        None \<Rightarrow> (Some (ErrLookPath binaryPath), w)
      | Some binary \<Rightarrow>
          if useExec then
            (let w' = log_event (EvSyscallExec binary (binary # args)) w
             in if syscall_exec_fails w binary then (Some (ErrExec binary), w') else (None, w'))
          else
            (let w' = log_event (EvCommandRun binary args) w
             in case run_outcome w binary args of
                  RunOK \<Rightarrow> (None, w')
                | RunExit n \<Rightarrow> (Some (ErrExitCode n), w')
                | RunFail \<Rightarrow> (Some (ErrRun binary), w')))"

subsection \<open>The local cache\<close>

definition getCacheDir :: "world \<Rightarrow> string \<Rightarrow> error + string" where
  "getCacheDir w customCacheDir =
     (if customCacheDir \<noteq> [] then Inr customCacheDir
      else (case os_UserHomeDir w of
              Inl e \<Rightarrow> Inl e
            | Inr homeDir \<Rightarrow> Inr (filepath_Join [homeDir, ''.cache'', ''bolter''])))"

definition getCachePathForRef ::
  "string \<Rightarrow> string \<Rightarrow> string \<Rightarrow> string \<Rightarrow> string \<Rightarrow> string \<Rightarrow> string" where
  "getCachePathForRef cacheDir registry repository tag goos arch =
     filepath_Join [cacheDir, strings_ReplaceAll_char registry (CHR '':'') (CHR ''_''),
                    strings_ReplaceAll_char repository (CHR ''/'') (CHR ''_''), tag,
                    goos @ ''-'' @ arch]"


definition copyFile :: "world \<Rightarrow> string \<Rightarrow> string \<Rightarrow> error option \<times> world" where
  "copyFile w src dst =
     (case os_ReadFile w src of
        Inl e \<Rightarrow> (Some e, w)
      | Inr data \<Rightarrow> write_file w dst data)"

definition saveCacheMetadata ::
  "extern \<Rightarrow> world \<Rightarrow> string \<Rightarrow> string \<Rightarrow> string \<Rightarrow> string \<Rightarrow> string \<Rightarrow> string \<Rightarrow> string \<Rightarrow> int
     \<Rightarrow> error option \<times> world" where
  "saveCacheMetadata X w cacheDir registry repository tag goos arch dgst sz =
     (let registry' = strings_ReplaceAll_char registry (CHR '':'') (CHR ''_'');
          repository' = strings_ReplaceAll_char repository (CHR ''/'') (CHR ''_'');
          metaPath = filepath_Join [cacheDir, registry', repository', tag, ''metadata.json''];
          meta = \<lparr>mRegistry = registry', mRepository = repository', mTag = tag, mOS = goos,
                  mArchitecture = arch, mDigest = dgst, mSize = sz, mCachedAt = now w\<rparr>;
          data = marshal_cacheMetadata X meta
      in case os_MkdirAll w (filepath_Dir metaPath) of
           Some e \<Rightarrow> (Some e, w)
         | None \<Rightarrow> write_file w metaPath data)"

subsection \<open>Pull\<close>

record PullOptions =
  pOutput :: string
  pPlatform :: string
  pUsername :: string
  pPassword :: string
  pInsecure :: bool
  pVerbose :: bool
  pUseCache :: bool
  pCacheDir :: string

text \<open>The second half of \<open>Pull\<close>, from the choice of the output path on. Messages
  printed under \<open>Verbose\<close> are not modelled.\<close>

definition Pull_output ::
  "extern \<Rightarrow> world \<Rightarrow> repository \<Rightarrow> descriptor \<Rightarrow> string \<Rightarrow> string \<Rightarrow> PullOptions
     \<Rightarrow> (error + BinaryInfo) \<times> world" where
  "Pull_output X w repo manifestDesc targetOS targetArch opts =
     (let r = Ref repo in
      case (if pUseCache opts then
              (case getCacheDir w (pCacheDir opts) of
                 Inl e \<Rightarrow> Inl (Wrap ''failed to get cache directory'' e)
               | Inr cacheDir \<Rightarrow>
                   let cachedBinary = getCachePathForRef cacheDir (Registry r) (Repository r)
                                        (Reference r) targetOS targetArch
                   in Inr (if pOutput opts = [] then cachedBinary else pOutput opts,
                           cacheDir, cachedBinary))
            else if pOutput opts = [] then Inl ErrOutputRequired
            else Inr (pOutput opts, [], []))
      of
        Inl e \<Rightarrow> (Inl e, w)
      | Inr (outputPath, cacheDir, cachedBinary) \<Rightarrow>
          (case pullBinary X w repo manifestDesc outputPath of
             (Some e, w1) \<Rightarrow> (Inl (Wrap ''failed to pull binary'' e), w1)
           | (None, w1) \<Rightarrow>
               (case os_Chmod w1 outputPath of
                  Some e \<Rightarrow> (Inl (Wrap ''failed to make binary executable'' e), w1)
                | None \<Rightarrow>
                    (case os_Stat w1 outputPath of
                       Inl e \<Rightarrow> (Inl (Wrap ''failed to stat binary'' e), w1)
                     | Inr sz \<Rightarrow>
                         let info = \<lparr>Path = outputPath, bDigest = Digest manifestDesc,
                                     bSize = sz, bOS = targetOS, bArchitecture = targetArch,
                                     Cached = False\<rparr>;
                             w2 = (if pUseCache opts \<and> outputPath \<noteq> cachedBinary then
                                     (case os_MkdirAll w1 (filepath_Dir cachedBinary) of
                                        Some _ \<Rightarrow> w1
                                      | None \<Rightarrow>
                                          (case copyFile w1 outputPath cachedBinary of
                                             (Some _, w') \<Rightarrow> w'
                                           | (None, w') \<Rightarrow>
                                               snd (saveCacheMetadata X w' cacheDir (Registry r)
                                                      (Repository r) (Reference r) targetOS
                                                      targetArch (Digest manifestDesc) sz)))
                                   else if pUseCache opts then
                                     snd (saveCacheMetadata X w1 cacheDir (Registry r)
                                            (Repository r) (Reference r) targetOS targetArch
                                            (Digest manifestDesc) sz)
                                   else w1)
                         in (Inr info, w2)))))"

definition Pull :: "extern \<Rightarrow> world \<Rightarrow> string \<Rightarrow> PullOptions \<Rightarrow> (error + BinaryInfo) \<times> world" where
  "Pull X w ref opts =
     (let (targetOS, targetArch) = parsePlatform w (pPlatform opts) in
      case createRepository X ref (pInsecure opts) of
        Inl e \<Rightarrow> (Inl (Wrap ''failed to create repository'' e), w)
      | Inr repo0 \<Rightarrow>
          (case setupAuth X w repo0 (pUsername opts) (pPassword opts) of
             (Some e, repo, w1) \<Rightarrow> (Inl e, w1)
           | (None, repo, w1) \<Rightarrow>
               (case repo_Resolve w1 repo (Reference (Ref repo)) of
                  (Inl e, w2) \<Rightarrow> (Inl (Wrap ''failed to resolve reference'' e), w2)
                | (Inr desc, w2) \<Rightarrow>
                    (case selectManifest X w2 repo desc targetOS targetArch of
                       (Inl e, w3) \<Rightarrow> (Inl e, w3)
                     | (Inr manifestDesc, w3) \<Rightarrow>
                         Pull_output X w3 repo manifestDesc targetOS targetArch opts))))"

subsection \<open>Run\<close>

record RunOptions =
  rPlatform :: string
  rUsername :: string
  rPassword :: string
  rInsecure :: bool
  rVerbose :: bool
  rNoCache :: bool
  rCacheDir :: string
  rUseExec :: bool

text \<open>
  The download path of \<open>Run\<close>, taken when the cache is not used or has no binary, in
  two parts: \<open>Run_fetch_to_cache\<close> creates the cache directory, downloads the binary
  to the cache path, makes it executable and saves the metadata (a failure to save it is
  ignored); \<open>Run_download\<close> authenticates, resolves and selects the manifest before
  it, and executes the binary after it.
\<close>

definition Run_fetch_to_cache ::
  "extern \<Rightarrow> world \<Rightarrow> repository \<Rightarrow> descriptor \<Rightarrow> string \<Rightarrow> string \<Rightarrow> string \<Rightarrow> string
     \<Rightarrow> error option \<times> world" where
  "Run_fetch_to_cache X w repo manifestDesc cacheDir cachedBinary targetOS targetArch =
     (case os_MkdirAll w (filepath_Dir cachedBinary) of
        Some e \<Rightarrow> (Some (Wrap ''failed to create cache directory'' e), w)
      | None \<Rightarrow>
          (case pullBinary X w repo manifestDesc cachedBinary of
             (Some e, w4) \<Rightarrow> (Some (Wrap ''failed to pull binary'' e), w4)
           | (None, w4) \<Rightarrow>
               (case os_Chmod w4 cachedBinary of
                  Some e \<Rightarrow> (Some (Wrap ''failed to make binary executable'' e), w4)
                | None \<Rightarrow>
                    let r = Ref repo
                    in (case os_Stat w4 cachedBinary of
                          Inl _ \<Rightarrow> (None, w4)
                        | Inr sz \<Rightarrow>
                            (None, snd (saveCacheMetadata X w4 cacheDir (Registry r)
                                          (Repository r) (Reference r) targetOS targetArch
                                          (Digest manifestDesc) sz))))))"

definition Run_download ::
  "extern \<Rightarrow> world \<Rightarrow> repository \<Rightarrow> string \<Rightarrow> string \<Rightarrow> string \<Rightarrow> string \<Rightarrow> string list \<Rightarrow> RunOptions
     \<Rightarrow> error option \<times> world" where
  "Run_download X w repo0 cacheDir cachedBinary targetOS targetArch args opts =
     (case setupAuth X w repo0 (rUsername opts) (rPassword opts) of
        (Some e, repo, w1) \<Rightarrow> (Some e, w1)
      | (None, repo, w1) \<Rightarrow>
          (case repo_Resolve w1 repo (Reference (Ref repo)) of
             (Inl e, w2) \<Rightarrow> (Some (Wrap ''failed to resolve reference'' e), w2)
           | (Inr desc, w2) \<Rightarrow>
               (case selectManifest X w2 repo desc targetOS targetArch of
                  (Inl e, w3) \<Rightarrow> (Some e, w3)
                | (Inr manifestDesc, w3) \<Rightarrow>
                    (case Run_fetch_to_cache X w3 repo manifestDesc cacheDir cachedBinary
                            targetOS targetArch of
                       (Some e, w5) \<Rightarrow> (Some e, w5)
                     | (None, w5) \<Rightarrow> executeBinary w5 cachedBinary args (rUseExec opts)))))"

definition Run :: "extern \<Rightarrow> world \<Rightarrow> string \<Rightarrow> string list \<Rightarrow> RunOptions \<Rightarrow> error option \<times> world" where
  "Run X w ref args opts =
     (let (targetOS, targetArch) = parsePlatform w (rPlatform opts) in
      case getCacheDir w (rCacheDir opts) of
        Inl e \<Rightarrow> (Some (Wrap ''failed to get cache directory'' e), w)
      | Inr cacheDir \<Rightarrow>
          (case createRepository X ref (rInsecure opts) of
             Inl e \<Rightarrow> (Some (Wrap ''failed to create repository'' e), w)
           | Inr repo \<Rightarrow>
               let r = Ref repo;
                   cachedBinary = getCachePathForRef cacheDir (Registry r) (Repository r)
                                    (Reference r) targetOS targetArch
               in if \<not> rNoCache opts \<and> (case os_Stat w cachedBinary of Inr _ \<Rightarrow> True | Inl _ \<Rightarrow> False)
                  then executeBinary w cachedBinary args (rUseExec opts)
                  else Run_download X w repo cacheDir cachedBinary targetOS targetArch args opts))"

subsection \<open>Predicates used in the statements\<close>

definition platform_matches :: "descriptor \<Rightarrow> string \<Rightarrow> string \<Rightarrow> bool" where
  "platform_matches m targetOS targetArch =
     (case Platform m of None \<Rightarrow> False
      | Some p \<Rightarrow> OS p = targetOS \<and> Architecture p = targetArch)"

definition entry_unusable :: "extern \<Rightarrow> (string \<rightharpoonup> string) \<Rightarrow> string \<Rightarrow> bool" where
  "entry_unusable X auths key =
     (case auths key of
        None \<Rightarrow> True
      | Some a \<Rightarrow> a = [] \<or>
          (case base64_DecodeString X a of
             None \<Rightarrow> True
           | Some decoded \<Rightarrow> CHR '':'' \<notin> set decoded))"

definition dockerConfigPath :: "string \<Rightarrow> string" where
  "dockerConfigPath homeDir = filepath_Join [homeDir, ''.docker'', ''config.json'']"

subsection \<open>A small world for concrete runs\<close>

text \<open>
  A registry holding one index with four entries, a manifest with two layers (the second
  layer's blob is absent from the registry), a manifest without layers and three manifests
  with one layer each; toy decoders
  that recognise these documents; and a host with a credential file and one cached binary.
\<close>

definition ex_layer :: descriptor where
  "ex_layer = \<lparr>MediaType = ''application/vnd.bolter.elf.v1'', Digest = ''sha256:l1'', Size = 4,
                Annotations = [(''org.opencontainers.image.title'', ''linux-amd64'')],
                Platform = None\<rparr>"

definition ex_layer_extra :: descriptor where
  "ex_layer_extra = \<lparr>MediaType = ''application/octet-stream'', Digest = ''sha256:missing'',
                      Size = 7, Annotations = [], Platform = None\<rparr>"

definition ex_config :: descriptor where
  "ex_config = \<lparr>MediaType = MediaTypeImageConfig, Digest = ''sha256:cfg'', Size = 2,
                 Annotations = [], Platform = None\<rparr>"

definition ex_manifest :: manifest where
  "ex_manifest = \<lparr>Config = ex_config, Layers = [ex_layer, ex_layer_extra]\<rparr>"

definition ex_desc :: "string \<Rightarrow> string \<Rightarrow> platform option \<Rightarrow> descriptor" where
  "ex_desc mt d p = \<lparr>MediaType = mt, Digest = d, Size = 2, Annotations = [], Platform = p\<rparr>"

definition ex_index :: index where
  "ex_index = \<lparr>Manifests =
     [ex_desc MediaTypeImageManifest ''sha256:m0'' None,
      ex_desc MediaTypeImageManifest ''sha256:m1'' (Some \<lparr>OS = ''linux'', Architecture = ''amd64''\<rparr>),
      ex_desc MediaTypeImageManifest ''sha256:m2'' (Some \<lparr>OS = ''linux'', Architecture = ''amd64''\<rparr>),
      ex_desc MediaTypeImageManifest ''sha256:m3'' (Some \<lparr>OS = ''linux'', Architecture = ''arm64''\<rparr>)]\<rparr>"

definition ex_blob :: "string \<Rightarrow> descriptor" where
  "ex_blob d = \<lparr>MediaType = ''application/vnd.bolter.binary.v1'', Digest = d, Size = 3,
                Annotations = [], Platform = None\<rparr>"

definition ex_extern :: extern where
  "ex_extern =
     \<lparr>digest_FromBytes = (\<lambda>b. ''sha256:'' @ b),
      unmarshal_Index = (\<lambda>b. if b = ''idx'' then Some ex_index else None),
      unmarshal_Manifest = (\<lambda>b. if b = ''m1'' then Some ex_manifest
                                 else if b = ''m0'' then Some \<lparr>Config = ex_config, Layers = []\<rparr>
                                 else if b = ''m3'' then Some \<lparr>Config = ex_config, Layers = [ex_blob ''sha256:l3'']\<rparr>
                                 else if b = ''mA'' then Some \<lparr>Config = ex_config, Layers = [ex_blob ''sha256:lA'']\<rparr>
                                 else if b = ''mB'' then Some \<lparr>Config = ex_config, Layers = [ex_blob ''sha256:lB'']\<rparr>
                                 else None),
      unmarshal_dockerConfig = (\<lambda>b. if b = ''cfg'' then Some [''reg.io'' \<mapsto> ''dXNlcjpwYXNz'']
                                     else if b = ''cfg2'' then Some [''reg.io'' \<mapsto> ''!!'', ''https://reg.io'' \<mapsto> ''bm9jb2xvbg=='']
                                     else None),
      unmarshal_cacheMetadata = (\<lambda>b. None),
      marshal_cacheMetadata = (\<lambda>m. mOS m @ ''/'' @ mArchitecture m),
      base64_DecodeString = (\<lambda>s. if s = ''dXNlcjpwYXNz'' then Some ''user:pass''
                                  else if s = ''bm9jb2xvbg=='' then Some ''nocolon'' else None),
      ParseReference = (\<lambda>s. if s = ''reg.io/app:v1''
                             then Some \<lparr>Registry = ''reg.io'', Repository = ''app'', Reference = ''v1''\<rparr>
                             else None)\<rparr>"

definition ex_repo :: repository where
  "ex_repo = \<lparr>Ref = \<lparr>Registry = ''reg.io'', Repository = ''app'', Reference = ''v1''\<rparr>,
               PlainHTTP = False, Client = None\<rparr>"

definition ex_store :: store where
  "ex_store =
     \<lparr>blobs = [''sha256:l1'' \<mapsto> ''TEST'', ''sha256:l3'' \<mapsto> ''TEX2'',
               ''sha256:lA'' \<mapsto> ''ONE'', ''sha256:lB'' \<mapsto> ''TWO''],
      manifests = [''sha256:idx'' \<mapsto> ''idx'', ''sha256:m0'' \<mapsto> ''m0'', ''sha256:m1'' \<mapsto> ''m1'',
                   ''sha256:m3'' \<mapsto> ''m3'', ''sha256:mA'' \<mapsto> ''mA'', ''sha256:mB'' \<mapsto> ''mB''],
      tags = [''v1'' \<mapsto> ex_desc MediaTypeImageIndex ''sha256:idx'' None]\<rparr>"

definition ex_world :: world where
  "ex_world =
     \<lparr>GOOS = ''linux'', GOARCH = ''amd64'', home = Some ''/home/u'',
      files = [''/home/u/.docker/config.json'' \<mapsto> ''cfg'',
               ''/home/u/.cache/bolter/reg.io/app/v1/linux-amd64'' \<mapsto> ''OLD''],
      mkdir_fails = (\<lambda>p. False), create_fails = (\<lambda>p. False),
      stores = (\<lambda>k. ex_store), now = 0, lookpath = (\<lambda>p. Some p),
      syscall_exec_fails = (\<lambda>p. False), run_outcome = (\<lambda>p args. RunOK), trace = []\<rparr>"

definition ex_world_bad_config :: world where
  "ex_world_bad_config = ex_world\<lparr>files := [''/home/u/.docker/config.json'' \<mapsto> ''cfg2'']\<rparr>"

definition ex_run_opts :: RunOptions where
  "ex_run_opts = \<lparr>rPlatform = ''linux/amd64'', rUsername = [], rPassword = [], rInsecure = False,
                   rVerbose = False, rNoCache = False, rCacheDir = [], rUseExec = False\<rparr>"

definition ex_pull_opts :: PullOptions where
  "ex_pull_opts = \<lparr>pOutput = ''out/app'', pPlatform = ''linux/amd64'', pUsername = [], pPassword = [],
                    pInsecure = False, pVerbose = False, pUseCache = False, pCacheDir = []\<rparr>"

definition ex_run_opts_nocache :: RunOptions where
  "ex_run_opts_nocache = \<lparr>rPlatform = ''linux/amd64'', rUsername = [], rPassword = [],
                           rInsecure = False, rVerbose = False, rNoCache = True,
                           rCacheDir = ''/cache'', rUseExec = False\<rparr>"

definition ex_world_tagged :: "descriptor \<Rightarrow> world" where
  "ex_world_tagged d = ex_world\<lparr>stores := (\<lambda>k. ex_store\<lparr>tags := [''v1'' \<mapsto> d]\<rparr>)\<rparr>"

definition ex_repo_auth :: repository where
  "ex_repo_auth = ex_repo\<lparr>Client := Some \<lparr>Username = ''user'', Password = ''pass''\<rparr>\<rparr>"

definition ex_w3 :: world where
  "ex_w3 = log_event (EvFetch ''reg.io'' ''app'' ''sha256:idx'')
             (log_event (EvResolve ''reg.io'' ''app'' ''v1'')
               (log_event (EvReadDockerConfig ''/home/u/.docker/config.json'') ex_world))"

subsection \<open>The cached listing (runCached)\<close>

text \<open>
  \<open>cached_visit\<close> is the function \<open>runCached\<close> passes to \<open>filepath.Walk\<close>,
  applied to one visited path: it yields the entry appended for that path, if any. The
  walk itself is a library function; \<open>runCached_entries\<close> takes the list of paths
  it visits. \<open>cache_record\<close> is the record \<open>saveCacheMetadata\<close> builds.
\<close>

record cacheEntry =
  metadata :: cacheMetadata
  binaryPath :: string
  binarySize :: int







subsection \<open>A model of encoding/json for the documents of this program\<close>

datatype token =
    TLBrace | TRBrace | TLBrack | TRBrack | TColon | TComma
  | TStr string | TNum string | TTrue | TFalse | TNull

datatype json =
    JNull | JBool bool | JNum string | JStr string
  | JArr "json list" | JObj "(string \<times> json) list"

definition is_digit :: "char \<Rightarrow> bool" where
  "is_digit c = (48 \<le> (of_char c :: nat) \<and> (of_char c :: nat) \<le> 57)"

definition is_space :: "char \<Rightarrow> bool" where
  "is_space c = (c = CHR '' '' \<or> c = CHR 0x09 \<or> c = CHR 0x0A \<or> c = CHR 0x0D)"

definition hexval :: "char \<Rightarrow> nat option" where
  "hexval c =
     (let n = (of_char c :: nat)
      in if 48 \<le> n \<and> n \<le> 57 then Some (n - 48)
         else if 97 \<le> n \<and> n \<le> 102 then Some (n - 87)
         else if 65 \<le> n \<and> n \<le> 70 then Some (n - 55)
         else None)"

definition hex4 :: "char \<Rightarrow> char \<Rightarrow> char \<Rightarrow> char \<Rightarrow> nat option" where
  "hex4 a b c d =
     (case (hexval a, hexval b, hexval c, hexval d) of
        (Some x, Some y, Some z, Some u) \<Rightarrow> Some (((x * 16 + y) * 16 + z) * 16 + u)
      | _ \<Rightarrow> None)"

definition utf8_encode :: "nat \<Rightarrow> string" where
  "utf8_encode r =
     (if r < 0x80 then [char_of r]
      else if r < 0x800 then [char_of (0xC0 + r div 64), char_of (0x80 + r mod 64)]
      else if r < 0x10000 then
        [char_of (0xE0 + r div 4096), char_of (0x80 + (r div 64) mod 64), char_of (0x80 + r mod 64)]
      else
        [char_of (0xF0 + r div 262144), char_of (0x80 + (r div 4096) mod 64),
         char_of (0x80 + (r div 64) mod 64), char_of (0x80 + r mod 64)])"

definition json_unescape :: "char \<Rightarrow> char option" where
  "json_unescape e =
     (if e = CHR 0x22 then Some (CHR 0x22)
      else if e = CHR 0x5C then Some (CHR 0x5C)
      else if e = CHR ''/'' then Some (CHR ''/'')
      else if e = CHR ''b'' then Some (CHR 0x08)
      else if e = CHR ''f'' then Some (CHR 0x0C)
      else if e = CHR ''n'' then Some (CHR 0x0A)
      else if e = CHR ''r'' then Some (CHR 0x0D)
      else if e = CHR ''t'' then Some (CHR 0x09)
      else None)"

definition second_surrogate :: "string \<Rightarrow> (nat \<times> string) option" where
  "second_surrogate s =
     (case s of
        b # u # g1 # g2 # g3 # g4 # rest \<Rightarrow>
          if b = CHR 0x5C \<and> u = CHR ''u'' then
            (case hex4 g1 g2 g3 g4 of
               Some r2 \<Rightarrow> if 0xDC00 \<le> r2 \<and> r2 < 0xE000 then Some (r2, rest) else None
             | None \<Rightarrow> None)
          else None
      | _ \<Rightarrow> None)"

definition prepend :: "string \<Rightarrow> (string \<times> string) option \<Rightarrow> (string \<times> string) option" where
  "prepend p r = (case r of None \<Rightarrow> None | Some (t, rest) \<Rightarrow> Some (p @ t, rest))"

function lex_string :: "string \<Rightarrow> (string \<times> string) option" where
  "lex_string [] = None"
| "lex_string (c # cs) =
     (if c = CHR 0x22 then Some ([], cs)
      else if c = CHR 0x5C then
        (case cs of
           [] \<Rightarrow> None
         | e # es \<Rightarrow>
             if e = CHR ''u'' then
               (case es of
                  h1 # h2 # h3 # h4 # rest \<Rightarrow>
                    (case hex4 h1 h2 h3 h4 of
                       None \<Rightarrow> None
                     | Some r \<Rightarrow>
                         if 0xD800 \<le> r \<and> r < 0xE000 then
                           (case (if r < 0xDC00 then second_surrogate rest else None) of
                              Some (r2, rest2) \<Rightarrow>
                                prepend (utf8_encode ((r - 0xD800) * 1024 + (r2 - 0xDC00) + 0x10000))
                                  (lex_string (drop 6 rest))
                            | None \<Rightarrow> prepend (utf8_encode 0xFFFD) (lex_string rest))
                         else prepend (utf8_encode r) (lex_string rest))
                | _ \<Rightarrow> None)
             else (case json_unescape e of
                     None \<Rightarrow> None
                   | Some d \<Rightarrow> prepend [d] (lex_string es)))
      else if (of_char c :: nat) < 0x20 then None
      else prepend [c] (lex_string cs))"
  by pat_completeness auto
termination
  by (relation "measure length") auto

text \<open>A run of digits, at least one.\<close>

definition lex_digits :: "string \<Rightarrow> (string \<times> string) option" where
  "lex_digits s =
     (if takeWhile is_digit s = [] then None
      else Some (takeWhile is_digit s, dropWhile is_digit s))"

text \<open>
  A number literal: an optional minus, then 0 or a digit run that does not start with 0,
  an optional fraction and an optional exponent. The result is the literal and the rest.
\<close>

definition lex_number :: "string \<Rightarrow> (string \<times> string) option" where
  "lex_number s =
     (let (sign, s1) = (case s of c # cs \<Rightarrow> if c = CHR ''-'' then ([c], cs) else ([], s) | [] \<Rightarrow> ([], s))
      in case (case s1 of
                 [] \<Rightarrow> None
               | d # ds \<Rightarrow> if d = CHR ''0'' then Some ([d], ds) else lex_digits s1) of
           None \<Rightarrow> None
         | Some (ip, s2) \<Rightarrow>
             (case (case s2 of
                      p # s3 \<Rightarrow>
                        if p = CHR ''.'' then
                          (case lex_digits s3 of
                             None \<Rightarrow> None
                           | Some (fp, s4) \<Rightarrow> Some (p # fp, s4))
                        else Some ([], s2)
                    | [] \<Rightarrow> Some ([], s2)) of
                None \<Rightarrow> None
              | Some (fp, s4) \<Rightarrow>
                  (case (case s4 of
                           e # s5 \<Rightarrow>
                             if e = CHR ''e'' \<or> e = CHR ''E'' then
                               (let (es, s6) = (case s5 of
                                                  g # s6 \<Rightarrow> if g = CHR ''+'' \<or> g = CHR ''-''
                                                               then ([g], s6) else ([], s5)
                                                | [] \<Rightarrow> ([], s5))
                                in case lex_digits s6 of
                                     None \<Rightarrow> None
                                   | Some (ed, s7) \<Rightarrow> Some (e # es @ ed, s7))
                             else Some ([], s4)
                         | [] \<Rightarrow> Some ([], s4)) of
                     None \<Rightarrow> None
                   | Some (ep, s7) \<Rightarrow> Some (sign @ ip @ fp @ ep, s7))))"

text \<open>
  The scanner: the tokens of a text, or \<open>None\<close> where the text has a character no
  token starts with, an unfinished string or a malformed number.
\<close>

definition cons_token :: "token \<Rightarrow> token list option \<Rightarrow> token list option" where
  "cons_token t r = (case r of None \<Rightarrow> None | Some ts \<Rightarrow> Some (t # ts))"

function tokenize :: "string \<Rightarrow> token list option" where
  "tokenize [] = Some []"
| "tokenize (c # cs) =
     (if is_space c then tokenize cs
      else if c = CHR ''{'' then cons_token TLBrace (tokenize cs)
      else if c = CHR ''}'' then cons_token TRBrace (tokenize cs)
      else if c = CHR ''['' then cons_token TLBrack (tokenize cs)
      else if c = CHR '']'' then cons_token TRBrack (tokenize cs)
      else if c = CHR '':'' then cons_token TColon (tokenize cs)
      else if c = CHR '','' then cons_token TComma (tokenize cs)
      else if c = CHR 0x22 then
        (case lex_string cs of
           None \<Rightarrow> None
         | Some (t, rest) \<Rightarrow> cons_token (TStr t) (tokenize rest))
      else if c = CHR ''-'' \<or> is_digit c then
        (case lex_number (c # cs) of
           None \<Rightarrow> None
         | Some (lit, rest) \<Rightarrow> cons_token (TNum lit) (tokenize rest))
      else if take 4 (c # cs) = ''true'' then cons_token TTrue (tokenize (drop 3 cs))
      else if take 5 (c # cs) = ''false'' then cons_token TFalse (tokenize (drop 4 cs))
      else if take 4 (c # cs) = ''null'' then cons_token TNull (tokenize (drop 3 cs))
      else None)"
  by pat_completeness auto
termination
proof (relation "measure length")
  have pd: "prepend p x = Some (t, r) \<Longrightarrow> \<exists>t'. x = Some (t', r)" for p x t r
    by (auto simp: prepend_def split: option.splits)
  have ls: "lex_string s = Some (t, r) \<Longrightarrow> length r \<le> length s" for s t r
  proof (induction "length s" arbitrary: s t r rule: less_induct)
    case less
    have IH: "lex_string s' = Some (t', r') \<Longrightarrow> length s' < length s \<Longrightarrow> length r' \<le> length s'"
      for s' t' r' using less.hyps by blast
    show ?case
    proof (cases s)
      case Nil
      with less.prems show ?thesis by simp
    next
      case (Cons c cs)
      show ?thesis
        using less.prems unfolding Cons lex_string.simps
        by (auto split: if_splits list.splits option.splits prod.splits
              dest!: pd dest: IH [unfolded Cons])
    qed
  qed
  have ld: "lex_digits s = Some (d, r) \<Longrightarrow> s = d @ r \<and> d \<noteq> []" for s d r
    by (auto simp: lex_digits_def split: if_splits)
  have ln: "lex_number s = Some (lit, r) \<Longrightarrow> s = lit @ r \<and> lit \<noteq> []" for s lit r
    unfolding lex_number_def Let_def
    by (auto split: list.splits if_splits option.splits prod.splits dest!: ld)
  show "wf (measure length)" by simp
  show "(y, c # cs) \<in> measure length"
    if "lex_string cs = Some x2" "(x, y) = x2" for c cs x2 x y
    using ls [of cs x y] that by simp
  show "(y, c # cs) \<in> measure length"
    if "lex_number (c # cs) = Some x2" "(x, y) = x2" for c cs x2 x y
  proof -
    have "c # cs = x @ y \<and> x \<noteq> []" using ln [of "c # cs" x y] that by simp
    then show ?thesis by (cases x) auto
  qed
qed simp_all

text \<open>
  The parser: a stack of the arrays and objects that are open (their elements and
  members so far, last first; \<open>FKey\<close> is an object whose next value belongs to the
  key read last) and what may come next.
\<close>

datatype frame =
    FArr "json list"
  | FObj "(string \<times> json) list"
  | FKey "(string \<times> json) list" string

datatype expect =
    PValue | PValueOrEnd | PKeyOrEnd | PKey | PColon | PCommaOrEnd | PDone json

fun deliver :: "json \<Rightarrow> frame list \<Rightarrow> (expect \<times> frame list) option" where
  "deliver v [] = Some (PDone v, [])"
| "deliver v (FArr vs # st) = Some (PCommaOrEnd, FArr (v # vs) # st)"
| "deliver v (FKey ms k # st) = Some (PCommaOrEnd, FObj ((k, v) # ms) # st)"
| "deliver v (FObj ms # st) = None"

fun scalar :: "token \<Rightarrow> json option" where
  "scalar (TStr s) = Some (JStr s)"
| "scalar (TNum n) = Some (JNum n)"
| "scalar TTrue = Some (JBool True)"
| "scalar TFalse = Some (JBool False)"
| "scalar TNull = Some JNull"
| "scalar _ = None"

fun begin_value :: "token \<Rightarrow> frame list \<Rightarrow> (expect \<times> frame list) option" where
  "begin_value TLBrack st = Some (PValueOrEnd, FArr [] # st)"
| "begin_value TLBrace st = Some (PKeyOrEnd, FObj [] # st)"
| "begin_value t st = (case scalar t of None \<Rightarrow> None | Some v \<Rightarrow> deliver v st)"

fun parse_step :: "expect \<Rightarrow> frame list \<Rightarrow> token \<Rightarrow> (expect \<times> frame list) option" where
  "parse_step PValue st t = begin_value t st"
| "parse_step PValueOrEnd (FArr vs # st) TRBrack = deliver (JArr (rev vs)) st"
| "parse_step PValueOrEnd st t = begin_value t st"
| "parse_step PKeyOrEnd (FObj ms # st) TRBrace = deliver (JObj (rev ms)) st"
| "parse_step PKeyOrEnd (FObj ms # st) (TStr k) = Some (PColon, FKey ms k # st)"
| "parse_step PKey (FObj ms # st) (TStr k) = Some (PColon, FKey ms k # st)"
| "parse_step PColon st TColon = Some (PValue, st)"
| "parse_step PCommaOrEnd (FArr vs # st) TComma = Some (PValue, FArr vs # st)"
| "parse_step PCommaOrEnd (FArr vs # st) TRBrack = deliver (JArr (rev vs)) st"
| "parse_step PCommaOrEnd (FObj ms # st) TComma = Some (PKey, FObj ms # st)"
| "parse_step PCommaOrEnd (FObj ms # st) TRBrace = deliver (JObj (rev ms)) st"
| "parse_step _ _ _ = None"

fun parse_tokens :: "expect \<Rightarrow> frame list \<Rightarrow> token list \<Rightarrow> json option" where
  "parse_tokens e st [] = (case e of PDone v \<Rightarrow> Some v | _ \<Rightarrow> None)"
| "parse_tokens e st (t # ts) =
     (case parse_step e st t of
        None \<Rightarrow> None
      | Some (e', st') \<Rightarrow> parse_tokens e' st' ts)"

definition json_parse :: "string \<Rightarrow> json option" where
  "json_parse s =
     (case tokenize s of
        None \<Rightarrow> None
      | Some ts \<Rightarrow> parse_tokens PValue [] ts)"

text \<open>
  Decoding into the program's types, as \<open>json.Unmarshal\<close> does for a struct: a member
  is matched to a field by its name without regard to (ASCII) case, the last member for a
  field counts, a missing member and \<open>null\<close> leave the zero value, and a value of the
  wrong kind is an error (\<open>None\<close>). Only the fields the program reads are decoded.
\<close>

definition to_lower :: "char \<Rightarrow> char" where
  "to_lower c = (if 65 \<le> (of_char c :: nat) \<and> (of_char c :: nat) \<le> 90
                 then char_of ((of_char c :: nat) + 32) else c)"

definition member_value :: "string \<Rightarrow> (string \<times> json) list \<Rightarrow> json" where
  "member_value name ms =
     (case filter (\<lambda>(k, v). map to_lower k = map to_lower name \<and> v \<noteq> JNull) ms of
        [] \<Rightarrow> JNull
      | x # xs \<Rightarrow> snd (last (x # xs)))"

definition digits_value :: "string \<Rightarrow> nat" where
  "digits_value ds = foldl (\<lambda>n d. 10 * n + ((of_char d :: nat) - 48)) 0 ds"

text \<open>\<open>strconv.ParseInt\<close> of a number literal into an \<open>int64\<close>.\<close>

definition parse_int64 :: "string \<Rightarrow> int option" where
  "parse_int64 lit =
     (let neg = (lit \<noteq> [] \<and> hd lit = CHR ''-'');
          ds = (if neg then tl lit else lit)
      in if ds = [] \<or> \<not> list_all is_digit ds then None
         else let n = int (digits_value ds); v = (if neg then - n else n)
              in if - (2 ^ 63) \<le> v \<and> v < 2 ^ 63 then Some v else None)"

definition as_string :: "json \<Rightarrow> string option" where
  "as_string v = (case v of JNull \<Rightarrow> Some [] | JStr s \<Rightarrow> Some s | _ \<Rightarrow> None)"

definition as_int :: "json \<Rightarrow> int option" where
  "as_int v = (case v of JNull \<Rightarrow> Some 0 | JNum lit \<Rightarrow> parse_int64 lit | _ \<Rightarrow> None)"

definition as_list :: "(json \<Rightarrow> 'a option) \<Rightarrow> json \<Rightarrow> 'a list option" where
  "as_list f v = (case v of JNull \<Rightarrow> Some [] | JArr vs \<Rightarrow> those (map f vs) | _ \<Rightarrow> None)"

definition as_string_map :: "json \<Rightarrow> (string \<times> string) list option" where
  "as_string_map v =
     (case v of
        JNull \<Rightarrow> Some []
      | JObj ms \<Rightarrow> those (map (\<lambda>(k, x). map_option (Pair k) (as_string x)) ms)
      | _ \<Rightarrow> None)"

definition decode_Platform :: "json \<Rightarrow> platform option option" where
  "decode_Platform v =
     (case v of
        JNull \<Rightarrow> Some None
      | JObj ms \<Rightarrow>
          (case (as_string (member_value ''os'' ms),
                 as_string (member_value ''architecture'' ms)) of
             (Some goos, Some arch) \<Rightarrow> Some (Some \<lparr>OS = goos, Architecture = arch\<rparr>)
           | _ \<Rightarrow> None)
      | _ \<Rightarrow> None)"

definition zero_Descriptor :: descriptor where
  "zero_Descriptor = \<lparr>MediaType = [], Digest = [], Size = 0, Annotations = [], Platform = None\<rparr>"

definition decode_Descriptor :: "json \<Rightarrow> descriptor option" where
  "decode_Descriptor v =
     (case v of
        JNull \<Rightarrow> Some zero_Descriptor
      | JObj ms \<Rightarrow>
          (case (as_string (member_value ''mediaType'' ms),
                 as_string (member_value ''digest'' ms),
                 as_int (member_value ''size'' ms),
                 as_string_map (member_value ''annotations'' ms),
                 decode_Platform (member_value ''platform'' ms)) of
             (Some mt, Some d, Some sz, Some an, Some p) \<Rightarrow>
               Some \<lparr>MediaType = mt, Digest = d, Size = sz, Annotations = an, Platform = p\<rparr>
           | _ \<Rightarrow> None)
      | _ \<Rightarrow> None)"

definition decode_Manifest :: "json \<Rightarrow> manifest option" where
  "decode_Manifest v =
     (case v of
        JNull \<Rightarrow> Some \<lparr>Config = zero_Descriptor, Layers = []\<rparr>
      | JObj ms \<Rightarrow>
          (case (decode_Descriptor (member_value ''config'' ms),
                 as_list decode_Descriptor (member_value ''layers'' ms)) of
             (Some c, Some ls) \<Rightarrow> Some \<lparr>Config = c, Layers = ls\<rparr>
           | _ \<Rightarrow> None)
      | _ \<Rightarrow> None)"

definition decode_Index :: "json \<Rightarrow> index option" where
  "decode_Index v =
     (case v of
        JNull \<Rightarrow> Some \<lparr>Manifests = []\<rparr>
      | JObj ms \<Rightarrow>
          (case as_list decode_Descriptor (member_value ''manifests'' ms) of
             Some ds \<Rightarrow> Some \<lparr>Manifests = ds\<rparr>
           | None \<Rightarrow> None)
      | _ \<Rightarrow> None)"

definition json_Unmarshal_Manifest :: "bytes \<Rightarrow> manifest option" where
  "json_Unmarshal_Manifest data =
     (case json_parse data of None \<Rightarrow> None | Some v \<Rightarrow> decode_Manifest v)"

definition json_Unmarshal_Index :: "bytes \<Rightarrow> index option" where
  "json_Unmarshal_Index data =
     (case json_parse data of None \<Rightarrow> None | Some v \<Rightarrow> decode_Index v)"

subsection \<open>Push (cmd/push.go)\<close>

record platformBinary =
  bin_path :: string
  bin_os :: string
  bin_arch :: string

text \<open>\<open>fmt.Sprintf("%d", n)\<close>.\<close>

fun show_nat :: "nat \<Rightarrow> string" where
  "show_nat n =
     (if n < 10 then [char_of (48 + n)]
      else show_nat (n div 10) @ [char_of (48 + n mod 10)])"

definition show_int :: "int \<Rightarrow> string" where
  "show_int i = (if i < 0 then CHR ''-'' # show_nat (nat (- i)) else show_nat (nat i))"

text \<open>The loop of \<open>parsePlatformMappings\<close>; \<open>acc\<close> is the slice built so far.\<close>

fun parsePlatformMappings_loop ::
  "world \<Rightarrow> platformBinary list \<Rightarrow> string list \<Rightarrow> error + platformBinary list" where
  "parsePlatformMappings_loop w acc [] = Inr acc"
| "parsePlatformMappings_loop w acc (p # ps) =
     (if CHR ''='' \<notin> set p then Inl (ErrInvalidPlatformFormat p)
      else
        let part0 = takeWhile (\<lambda>c. c \<noteq> CHR ''='') p;
            part1 = tl (dropWhile (\<lambda>c. c \<noteq> CHR ''='') p)
        in (case split_slash part0 of
              [goos, arch] \<Rightarrow>
                (case os_Stat w part1 of
                   Inl _ \<Rightarrow> Inl (ErrFileNotFound part1)
                 | Inr _ \<Rightarrow>
                     parsePlatformMappings_loop w
                       (acc @ [\<lparr>bin_path = part1, bin_os = goos, bin_arch = arch\<rparr>]) ps)
            | _ \<Rightarrow> Inl (ErrInvalidPlatformFormat part0)))"

definition parsePlatformMappings :: "world \<Rightarrow> string list \<Rightarrow> error + platformBinary list" where
  "parsePlatformMappings w platforms = parsePlatformMappings_loop w [] platforms"

text \<open>
  The in-memory content store of a push (\<open>memory.New()\<close>), by media type, digest and
  size. \<open>successors\<close> are the descriptors a stored document refers to: the config and
  the layers of a manifest, the manifests of an index, none for anything else; the store
  and the graph copy decode the document to find them.
\<close>

type_synonym memstore = "string \<times> string \<times> int \<rightharpoonup> bytes"

definition mem_key :: "descriptor \<Rightarrow> string \<times> string \<times> int" where
  "mem_key d = (MediaType d, Digest d, Size d)"

definition successors :: "extern \<Rightarrow> descriptor \<Rightarrow> bytes \<Rightarrow> descriptor list option" where
  "successors X d content =
     (if MediaType d = MediaTypeImageManifest then
        (case unmarshal_Manifest X content of
           None \<Rightarrow> None
         | Some m \<Rightarrow> Some (Config m # Layers m))
      else if MediaType d = MediaTypeImageIndex then
        (case unmarshal_Index X content of
           None \<Rightarrow> None
         | Some i \<Rightarrow> Some (Manifests i))
      else Some [])"

text \<open>\<open>memoryStore.Push\<close>: refuses what it already has, checks the content against
  the descriptor, stores it and indexes its successors.\<close>

definition mem_Push :: "extern \<Rightarrow> memstore \<Rightarrow> descriptor \<Rightarrow> bytes \<Rightarrow> error option \<times> memstore" where
  "mem_Push X ms d content =
     (if ms (mem_key d) \<noteq> None then (Some ErrAlreadyExists, ms)
      else if digest_FromBytes X content \<noteq> Digest d \<or> int (length content) \<noteq> Size d
        then (Some ErrVerify, ms)
      else (case successors X d content of
              None \<Rightarrow> (Some ErrUnmarshal, ms(mem_key d \<mapsto> content))
            | Some _ \<Rightarrow> (None, ms(mem_key d \<mapsto> content))))"

text \<open>The test \<open>strings.Contains(strings.ToLower(err.Error()), "already exists")\<close>.\<close>

fun is_already_exists :: "error \<Rightarrow> bool" where
  "is_already_exists ErrAlreadyExists = True"
| "is_already_exists (Wrap msg e) = is_already_exists e"
| "is_already_exists _ = False"

definition store_put :: "store \<Rightarrow> descriptor \<Rightarrow> bytes \<Rightarrow> store" where
  "store_put st d content =
     (if is_manifest_type (MediaType d) then st\<lparr>manifests := (manifests st)(Digest d \<mapsto> content)\<rparr>
      else st\<lparr>blobs := (blobs st)(Digest d \<mapsto> content)\<rparr>)"

fun fold_err :: "('a \<Rightarrow> 's \<Rightarrow> error + 's) \<Rightarrow> 'a list \<Rightarrow> 's \<Rightarrow> error + 's" where
  "fold_err f [] s = Inr s"
| "fold_err f (x # xs) s = (case f x s of Inl e \<Rightarrow> Inl e | Inr s' \<Rightarrow> fold_err f xs s')"

text \<open>
  \<open>oras.CopyGraph\<close> from the memory store to the repository: a node the repository
  has is skipped with everything below it; otherwise its successors are copied first and
  then the node itself. \<open>n\<close> bounds the depth; the graphs of a push have depth three
  (index, manifests, blobs).
\<close>

fun copy_node :: "nat \<Rightarrow> extern \<Rightarrow> memstore \<Rightarrow> descriptor \<Rightarrow> store \<Rightarrow> error + store" where
  "copy_node 0 X ms d st = Inl ErrDepth"
| "copy_node (Suc n) X ms d st =
     (if store_lookup st d \<noteq> None then Inr st
      else (case ms (mem_key d) of
              None \<Rightarrow> Inl (ErrNotFound (Digest d))
            | Some content \<Rightarrow>
                (case successors X d content of
                   None \<Rightarrow> Inl ErrUnmarshal
                 | Some succs \<Rightarrow>
                     (case fold_err (\<lambda>s st'. copy_node n X ms s st') succs st of
                        Inl e \<Rightarrow> Inl e
                      | Inr st' \<Rightarrow> Inr (store_put st' d content)))))"

definition oras_CopyGraph :: "extern \<Rightarrow> world \<Rightarrow> memstore \<Rightarrow> repository \<Rightarrow> descriptor \<Rightarrow> error option \<times> world" where
  "oras_CopyGraph X w ms repo root =
     (case copy_node 3 X ms root (repo_store w repo) of
        Inl e \<Rightarrow> (Some e, w)
      | Inr st \<Rightarrow>
          (None, w\<lparr>stores := (stores w)((Registry (Ref repo), Repository (Ref repo)) := st)\<rparr>))"

text \<open>\<open>repo.Tag\<close>: the tag points to a manifest the repository has; resolving the tag
  later gives its media type, digest and size.\<close>

definition repo_Tag :: "world \<Rightarrow> repository \<Rightarrow> descriptor \<Rightarrow> string \<Rightarrow> error option \<times> world" where
  "repo_Tag w repo d tag =
     (let st = repo_store w repo
      in case store_lookup st d of
           None \<Rightarrow> (Some (ErrNotFound (Digest d)), w)
         | Some _ \<Rightarrow>
             (None, w\<lparr>stores := (stores w)((Registry (Ref repo), Repository (Ref repo)) :=
                        st\<lparr>tags := (tags st)(tag \<mapsto>
                              \<lparr>MediaType = MediaType d, Digest = Digest d, Size = Size d,
                                 Annotations = [], Platform = None\<rparr>)\<rparr>)\<rparr>))"

definition manifest_json :: "descriptor \<Rightarrow> descriptor \<Rightarrow> string \<Rightarrow> string \<Rightarrow> bytes" where
  \<open>manifest_json configDesc binaryDesc goos arch =
     ''{"schemaVersion":2,"mediaType":"'' @ MediaTypeImageManifest @
     ''","config":{"mediaType":"'' @ MediaType configDesc @
     ''","digest":"'' @ Digest configDesc @
     ''","size":'' @ show_int (Size configDesc) @
     ''},"layers":[{"mediaType":"'' @ MediaType binaryDesc @
     ''","digest":"'' @ Digest binaryDesc @
     ''","size":'' @ show_int (Size binaryDesc) @
     '',"annotations":{'' @
     (''"org.opencontainers.image.title":"'' @ (goos @ ''-'' @ arch) @ ''"'') @
     ''}}]}''\<close>

text \<open>An error of a store operation is ignored when it says "already exists".\<close>

definition ignore_exists :: "error option \<Rightarrow> error option" where
  "ignore_exists r = (case r of Some e \<Rightarrow> if is_already_exists e then None else Some e | None \<Rightarrow> None)"

definition pushBinary ::
  "extern \<Rightarrow> world \<Rightarrow> memstore \<Rightarrow> repository \<Rightarrow> platformBinary
     \<Rightarrow> (error + descriptor) \<times> memstore \<times> world" where
  "pushBinary X w ms repo binary =
     (case os_ReadFile w (bin_path binary) of
        Inl e \<Rightarrow> (Inl e, ms, w)
      | Inr data \<Rightarrow>
          let binaryDesc =
                \<lparr>MediaType = getMediaTypeForPlatform (bin_os binary) (bin_arch binary),
                 Digest = digest_FromBytes X data, Size = int (length data),
                 Annotations = [(''org.opencontainers.image.title'',
                                 bin_os binary @ ''-'' @ bin_arch binary)],
                 Platform = None\<rparr>;
              (r1, ms1) = mem_Push X ms binaryDesc data
          in (case ignore_exists r1 of
                Some e \<Rightarrow> (Inl e, ms1, w)
              | None \<Rightarrow>
                  let configDesc =
                        \<lparr>MediaType = MediaTypeImageConfig, Digest = digest_FromBytes X ''{}'',
                         Size = 2, Annotations = [], Platform = None\<rparr>;
                      (r2, ms2) = mem_Push X ms1 configDesc ''{}''
                  in (case ignore_exists r2 of
                        Some e \<Rightarrow> (Inl e, ms2, w)
                      | None \<Rightarrow>
                          let manifestBytes =
                                manifest_json configDesc binaryDesc (bin_os binary) (bin_arch binary);
                              manifestDesc =
                                \<lparr>MediaType = MediaTypeImageManifest,
                                 Digest = digest_FromBytes X manifestBytes,
                                 Size = int (length manifestBytes), Annotations = [],
                                 Platform = Some \<lparr>OS = bin_os binary,
                                                  Architecture = bin_arch binary\<rparr>\<rparr>;
                              (r3, ms3) = mem_Push X ms2 manifestDesc manifestBytes
                          in (case ignore_exists r3 of
                                Some e \<Rightarrow> (Inl e, ms3, w)
                              | None \<Rightarrow>
                                  (case oras_CopyGraph X w ms3 repo manifestDesc of
                                     (r4, w') \<Rightarrow>
                                       (case ignore_exists r4 of
                                          Some e \<Rightarrow> (Inl e, ms3, w')
                                        | None \<Rightarrow> (Inr manifestDesc, ms3, w')))))))"

fun index_entries_json :: "descriptor list \<Rightarrow> string" where
  "index_entries_json [] = []"
| \<open>index_entries_json (m # ms) =
     ''{"mediaType":"'' @ MediaType m @
     ''","digest":"'' @ Digest m @
     ''","size":'' @ show_int (Size m) @
     '',"platform":{"os":"'' @ (case Platform m of Some p \<Rightarrow> OS p | None \<Rightarrow> []) @
     ''","architecture":"'' @ (case Platform m of Some p \<Rightarrow> Architecture p | None \<Rightarrow> []) @
     ''"}}'' @ (if ms = [] then [] else '','' @ index_entries_json ms)\<close>

definition index_json :: "descriptor list \<Rightarrow> bytes" where
  \<open>index_json ms =
     ''{"schemaVersion":2,"mediaType":"'' @ MediaTypeImageIndex @
     ''","manifests":'' @ (''['' @ index_entries_json ms @ '']'') @ ''}''\<close>

definition createAndPushIndex ::
  "extern \<Rightarrow> world \<Rightarrow> memstore \<Rightarrow> repository \<Rightarrow> descriptor list
     \<Rightarrow> (error + descriptor) \<times> memstore \<times> world" where
  "createAndPushIndex X w ms repo manifestDescs =
     (let indexBytes = index_json manifestDescs;
          indexDesc = \<lparr>MediaType = MediaTypeImageIndex, Digest = digest_FromBytes X indexBytes,
                       Size = int (length indexBytes), Annotations = [], Platform = None\<rparr>;
          (r1, ms1) = mem_Push X ms indexDesc indexBytes
      in (case ignore_exists r1 of
            Some e \<Rightarrow> (Inl e, ms1, w)
          | None \<Rightarrow>
              (case oras_CopyGraph X w ms1 repo indexDesc of
                 (r2, w') \<Rightarrow>
                   (case ignore_exists r2 of
                      Some e \<Rightarrow> (Inl e, ms1, w')
                    | None \<Rightarrow> (Inr indexDesc, ms1, w')))))"

text \<open>The loop of \<open>runPush\<close> over the binaries; \<open>acc\<close> is \<open>manifestDescriptors\<close>.\<close>

fun pushBinaries ::
  "extern \<Rightarrow> world \<Rightarrow> memstore \<Rightarrow> repository \<Rightarrow> descriptor list \<Rightarrow> platformBinary list
     \<Rightarrow> (error + descriptor list) \<times> memstore \<times> world" where
  "pushBinaries X w ms repo acc [] = (Inr acc, ms, w)"
| "pushBinaries X w ms repo acc (b # bs) =
     (case pushBinary X w ms repo b of
        (Inl e, ms', w') \<Rightarrow>
          (Inl (Wrap (''failed to push binary '' @ bin_os b @ ''/'' @ bin_arch b) e), ms', w')
      | (Inr d, ms', w') \<Rightarrow> pushBinaries X w' ms' repo (acc @ [d]) bs)"

text \<open>\<open>runPush\<close>; \<open>exitWithError\<close> is the error result. The credential block of
  \<open>runPush\<close> is the code of \<open>setupAuth\<close>.\<close>

definition runPush ::
  "extern \<Rightarrow> world \<Rightarrow> string \<Rightarrow> string list \<Rightarrow> string \<Rightarrow> string \<Rightarrow> bool \<Rightarrow> error option \<times> world" where
  "runPush X w ref pushPlatforms pushUsername pushPassword insecure =
     (if pushPlatforms = [] then (Some ErrNoBin, w)
      else
        (case parsePlatformMappings w pushPlatforms of
           Inl e \<Rightarrow> (Some (Wrap ''failed to parse bin mappings'' e), w)
         | Inr binaries \<Rightarrow>
             (case createRepository X ref insecure of
                Inl e \<Rightarrow> (Some (Wrap ''failed to create repository'' e), w)
              | Inr repo0 \<Rightarrow>
                  (case setupAuth X w repo0 pushUsername pushPassword of
                     (_, repo, w1) \<Rightarrow>
                       (case pushBinaries X w1 Map.empty repo [] binaries of
                          (Inl e, ms, w2) \<Rightarrow> (Some e, w2)
                        | (Inr manifestDescs, ms, w2) \<Rightarrow>
                            (case createAndPushIndex X w2 ms repo manifestDescs of
                               (Inl e, ms', w3) \<Rightarrow>
                                 (Some (Wrap ''failed to create manifest index'' e), w3)
                             | (Inr indexDesc, ms', w3) \<Rightarrow>
                                 (case repo_Tag w3 repo indexDesc (Reference (Ref repo)) of
                                    (Some e, w4) \<Rightarrow> (Some (Wrap ''failed to tag manifest'' e), w4)
                                  | (None, w4) \<Rightarrow> (None, w4))))))))"

section \<open>Theorems\<close>

text \<open>
  C4. The media-type mapper is a total function of (os, arch) following this rule order:
  os "js" or "wasip1" or arch "wasm" gives the WASM type; otherwise "windows" gives the
  windows-exe type, "darwin" the Mach-O type, each of "linux", "freebsd", "openbsd",
  "netbsd", "dragonfly", "solaris", "illumos" the ELF type, "plan9" the plan9 type, "aix"
  the XCOFF type, and every other os the generic binary type.
\<close>

theorem getMediaTypeForPlatform_rules:
  "getMediaTypeForPlatform goos goarch =
     (if goos = ''js'' \<or> goos = ''wasip1'' \<or> goarch = ''wasm''
        then ''application/vnd.bolter.wasm.v1''
      else if goos = ''windows'' then ''application/vnd.bolter.windows.exe.v1''
      else if goos = ''darwin'' then ''application/vnd.bolter.macho.v1''
      else if goos = ''linux'' \<or> goos = ''freebsd'' \<or> goos = ''openbsd'' \<or> goos = ''netbsd''
              \<or> goos = ''dragonfly'' \<or> goos = ''solaris'' \<or> goos = ''illumos''
        then ''application/vnd.bolter.elf.v1''
      else if goos = ''plan9'' then ''application/vnd.bolter.plan9.v1''
      else if goos = ''aix'' then ''application/vnd.bolter.xcoff.v1''
      else ''application/vnd.bolter.binary.v1'')"
  unfolding getMediaTypeForPlatform_def by simp

lemma scan_manifests_find:
  "scan_manifests ms os arch = List.find (\<lambda>m. platform_matches m os arch) ms"
  by (induction ms) (auto simp: platform_matches_def split: option.splits)

lemma scan_manifests_first:
  assumes "i < length ms" "platform_matches (ms ! i) os arch"
    "\<forall>j<i. \<not> platform_matches (ms ! j) os arch"
  shows "scan_manifests ms os arch = Some (ms ! i)"
  using assms unfolding scan_manifests_find find_Some_iff by blast

lemma scan_manifests_none:
  assumes "\<forall>m\<in>set ms. \<not> platform_matches m os arch"
  shows "scan_manifests ms os arch = None"
  using assms unfolding scan_manifests_find find_None_iff by blast

lemma selectManifest_index:
  assumes "MediaType desc = MediaTypeImageIndex"
    and "repo_Fetch w repo desc = (Inr indexBytes, w')"
    and "unmarshal_Index X indexBytes = Some idx"
  shows "selectManifest X w repo desc targetOS targetArch =
           (case scan_manifests (Manifests idx) targetOS targetArch of
              Some m \<Rightarrow> (Inr m, w')
            | None \<Rightarrow> (Inl (Wrap ''failed to find manifest for platform''
                              (ErrNoManifestFound targetOS targetArch)), w'))"
  using assms by (simp add: selectManifest_def findManifestForPlatform_def split: option.splits)

lemma Pull_after_resolve:
  assumes "createRepository X ref (pInsecure opts) = Inr repo0"
    and "setupAuth X w repo0 (pUsername opts) (pPassword opts) = (None, repo, w1)"
    and "repo_Resolve w1 repo (Reference (Ref repo)) = (Inr desc, w2)"
    and "parsePlatform w (pPlatform opts) = (targetOS, targetArch)"
  shows "Pull X w ref opts =
           (case selectManifest X w2 repo desc targetOS targetArch of
              (Inl e, w3) \<Rightarrow> (Inl e, w3)
            | (Inr manifestDesc, w3) \<Rightarrow> Pull_output X w3 repo manifestDesc targetOS targetArch opts)"
  using assms by (simp add: Pull_def)

lemma setupAuth_Ref:
  "setupAuth X w repo0 u p = (r, repo, w1) \<Longrightarrow> Ref repo = Ref repo0"
  by (auto simp: setupAuth_def Let_def split: prod.splits option.splits if_splits)

lemma Run_after_resolve:
  assumes "createRepository X ref (rInsecure opts) = Inr repo0"
    and "setupAuth X w repo0 (rUsername opts) (rPassword opts) = (None, repo, w1)"
    and "repo_Resolve w1 repo (Reference (Ref repo)) = (Inr desc, w2)"
    and "parsePlatform w (rPlatform opts) = (targetOS, targetArch)"
    and "getCacheDir w (rCacheDir opts) = Inr cacheDir"
    and "cachedBinary = getCachePathForRef cacheDir (Registry (Ref repo0)) (Repository (Ref repo0))
                          (Reference (Ref repo0)) targetOS targetArch"
    and "rNoCache opts \<or> os_Stat w cachedBinary = Inl (ErrNotExist cachedBinary)"
  shows "Run X w ref args opts =
           (case selectManifest X w2 repo desc targetOS targetArch of
              (Inl e, w3) \<Rightarrow> (Some e, w3)
            | (Inr manifestDesc, w3) \<Rightarrow>
                (case Run_fetch_to_cache X w3 repo manifestDesc cacheDir cachedBinary
                        targetOS targetArch of
                   (Some e, w5) \<Rightarrow> (Some e, w5)
                 | (None, w5) \<Rightarrow> executeBinary w5 cachedBinary args (rUseExec opts)))"
proof -
  have "Run X w ref args opts
          = Run_download X w repo0 cacheDir cachedBinary targetOS targetArch args opts"
    using assms(1,4,5,6,7) by (auto simp: Run_def Let_def)
  then show ?thesis using assms(2,3) by (simp add: Run_download_def)
qed

lemma Pull_output_digest:
  "Pull_output X w repo manifestDesc targetOS targetArch opts = (Inr info, w')
     \<Longrightarrow> bDigest info = Digest manifestDesc \<and> bOS info = targetOS \<and> bArchitecture info = targetArch"
  by (auto simp: Pull_output_def Let_def split: sum.splits prod.splits option.splits if_splits)

text \<open>
  C2. When the resolved top-level descriptor is an image index (the reference parses, the
  tag resolves, the index is fetched and decoded), Pull and Run go on with the entry of
  the index's manifests list at the least position whose platform is non-nil and whose OS
  and architecture both equal the requested platform's: Pull continues with that entry,
  and a successful Pull reports its digest; Run, when it does not use a cached binary,
  downloads that entry into the cache and executes it. So the earliest of several entries
  for one platform wins. When no entry matches, Pull and Run both fail with the
  no-manifest-found error naming the requested os and arch.
\<close>

theorem pull_run_select_first_matching_platform:
  assumes "createRepository X ref (pInsecure opts) = Inr repo0"
    and "setupAuth X w repo0 (pUsername opts) (pPassword opts) = (None, repo, w1)"
    and "repo_Resolve w1 repo (Reference (Ref repo)) = (Inr desc, w2)"
    and "MediaType desc = MediaTypeImageIndex"
    and "repo_Fetch w2 repo desc = (Inr indexBytes, w3)"
    and "unmarshal_Index X indexBytes = Some idx"
    and "parsePlatform w (pPlatform opts) = (targetOS, targetArch)"
    and "rPlatform ropts = pPlatform opts \<and> rUsername ropts = pUsername opts
         \<and> rPassword ropts = pPassword opts \<and> rInsecure ropts = pInsecure opts"
    and "getCacheDir w (rCacheDir ropts) = Inr cacheDir"
    and "cachedBinary = getCachePathForRef cacheDir (Registry (Ref repo0)) (Repository (Ref repo0))
                          (Reference (Ref repo0)) targetOS targetArch"
    and "rNoCache ropts \<or> os_Stat w cachedBinary = Inl (ErrNotExist cachedBinary)"
  shows "(\<forall>i. i < length (Manifests idx)
             \<and> platform_matches (Manifests idx ! i) targetOS targetArch
             \<and> (\<forall>j<i. \<not> platform_matches (Manifests idx ! j) targetOS targetArch)
           \<longrightarrow> Pull X w ref opts
                 = Pull_output X w3 repo (Manifests idx ! i) targetOS targetArch opts
               \<and> (\<forall>info w'. Pull X w ref opts = (Inr info, w')
                     \<longrightarrow> bDigest info = Digest (Manifests idx ! i))
               \<and> Run X w ref args ropts
                 = (case Run_fetch_to_cache X w3 repo (Manifests idx ! i) cacheDir cachedBinary
                           targetOS targetArch of
                      (Some e, w5) \<Rightarrow> (Some e, w5)
                    | (None, w5) \<Rightarrow> executeBinary w5 cachedBinary args (rUseExec ropts)))
       \<and> ((\<forall>m\<in>set (Manifests idx). \<not> platform_matches m targetOS targetArch)
           \<longrightarrow> Pull X w ref opts
                 = (Inl (Wrap ''failed to find manifest for platform''
                      (ErrNoManifestFound targetOS targetArch)), w3)
               \<and> Run X w ref args ropts
                 = (Some (Wrap ''failed to find manifest for platform''
                      (ErrNoManifestFound targetOS targetArch)), w3))"
proof -
  note sel = selectManifest_index [OF assms(4,5,6), of targetOS targetArch]
  note pull = Pull_after_resolve [OF assms(1,2,3,7)]
  have r: "createRepository X ref (rInsecure ropts) = Inr repo0"
          "setupAuth X w repo0 (rUsername ropts) (rPassword ropts) = (None, repo, w1)"
          "parsePlatform w (rPlatform ropts) = (targetOS, targetArch)"
    using assms(1,2,7,8) by simp_all
  note run = Run_after_resolve [OF r(1,2) assms(3) r(3) assms(9,10,11), of args]
  show ?thesis
  proof (intro conjI allI impI)
    fix i
    assume a: "i < length (Manifests idx)
             \<and> platform_matches (Manifests idx ! i) targetOS targetArch
             \<and> (\<forall>j<i. \<not> platform_matches (Manifests idx ! j) targetOS targetArch)"
    then have s: "scan_manifests (Manifests idx) targetOS targetArch = Some (Manifests idx ! i)"
      using scan_manifests_first by blast
    show p: "Pull X w ref opts
            = Pull_output X w3 repo (Manifests idx ! i) targetOS targetArch opts"
      unfolding pull sel s by simp
    show "Run X w ref args ropts
            = (case Run_fetch_to_cache X w3 repo (Manifests idx ! i) cacheDir cachedBinary
                      targetOS targetArch of
                 (Some e, w5) \<Rightarrow> (Some e, w5)
               | (None, w5) \<Rightarrow> executeBinary w5 cachedBinary args (rUseExec ropts))"
      unfolding run sel s by simp
    fix info w'
    assume "Pull X w ref opts = (Inr info, w')"
    then show "bDigest info = Digest (Manifests idx ! i)"
      unfolding p using Pull_output_digest by blast
  next
    assume a: "\<forall>m\<in>set (Manifests idx). \<not> platform_matches m targetOS targetArch"
    then have s: "scan_manifests (Manifests idx) targetOS targetArch = None"
      by (rule scan_manifests_none)
    show "Pull X w ref opts
            = (Inl (Wrap ''failed to find manifest for platform''
                 (ErrNoManifestFound targetOS targetArch)), w3)"
      unfolding pull sel s by simp
    show "Run X w ref args ropts
            = (Some (Wrap ''failed to find manifest for platform''
                 (ErrNoManifestFound targetOS targetArch)), w3)"
      unfolding run sel s by simp
  qed
qed

lemma media_types_distinct: "MediaTypeImageManifest \<noteq> MediaTypeImageIndex"
  by (simp add: MediaTypeImageManifest_def MediaTypeImageIndex_def)

lemma Pull_output_not_platform_error:
  "fst (Pull_output X w repo manifestDesc targetOS targetArch opts)
     \<noteq> Inl (Wrap ''failed to find manifest for platform'' e)"
  by (auto simp: Pull_output_def Let_def split: sum.splits prod.splits option.splits if_splits)

lemma executeBinary_not_platform_error:
  "fst (executeBinary w p args ue) \<noteq> Some (Wrap m e)"
  by (auto simp: executeBinary_def Let_def split: option.splits run_result.splits)

lemma Run_fetch_to_cache_not_platform_error:
  "fst (Run_fetch_to_cache X w repo md cd cb os arch)
     \<noteq> Some (Wrap ''failed to find manifest for platform'' e)"
  by (auto simp: Run_fetch_to_cache_def Let_def split: sum.splits prod.splits option.splits)

text \<open>
  C3. Once the reference is parsed and the tag resolved: if the top-level descriptor has
  the image-manifest media type, Pull and Run use that descriptor itself as the selected
  manifest, whatever platform was requested, and neither fails with the
  no-manifest-for-platform error; if its media type is neither the image-index nor the
  image-manifest type, Pull and Run fail with the unsupported-media-type error; the only
  remaining case is the image index, where they go through findManifestForPlatform.
\<close>

theorem pull_run_toplevel_media_type:
  assumes "createRepository X ref (pInsecure opts) = Inr repo0"
    and "setupAuth X w repo0 (pUsername opts) (pPassword opts) = (None, repo, w1)"
    and "repo_Resolve w1 repo (Reference (Ref repo)) = (Inr desc, w2)"
    and "parsePlatform w (pPlatform opts) = (targetOS, targetArch)"
    and "rPlatform ropts = pPlatform opts \<and> rUsername ropts = pUsername opts
         \<and> rPassword ropts = pPassword opts \<and> rInsecure ropts = pInsecure opts"
    and "getCacheDir w (rCacheDir ropts) = Inr cacheDir"
    and "cachedBinary = getCachePathForRef cacheDir (Registry (Ref repo0)) (Repository (Ref repo0))
                          (Reference (Ref repo0)) targetOS targetArch"
    and "rNoCache ropts \<or> os_Stat w cachedBinary = Inl (ErrNotExist cachedBinary)"
  shows "(MediaType desc = MediaTypeImageManifest \<longrightarrow>
            Pull X w ref opts = Pull_output X w2 repo desc targetOS targetArch opts
          \<and> (\<forall>info w'. Pull X w ref opts = (Inr info, w') \<longrightarrow> bDigest info = Digest desc)
          \<and> Run X w ref args ropts
              = (case Run_fetch_to_cache X w2 repo desc cacheDir cachedBinary targetOS targetArch of
                   (Some e, w5) \<Rightarrow> (Some e, w5)
                 | (None, w5) \<Rightarrow> executeBinary w5 cachedBinary args (rUseExec ropts))
          \<and> (\<forall>e. fst (Pull X w ref opts) \<noteq> Inl (Wrap ''failed to find manifest for platform'' e)
                \<and> fst (Run X w ref args ropts) \<noteq> Some (Wrap ''failed to find manifest for platform'' e)))
       \<and> (MediaType desc \<noteq> MediaTypeImageIndex \<and> MediaType desc \<noteq> MediaTypeImageManifest \<longrightarrow>
            Pull X w ref opts = (Inl (ErrUnsupportedMediaType (MediaType desc)), w2)
          \<and> Run X w ref args ropts = (Some (ErrUnsupportedMediaType (MediaType desc)), w2))
       \<and> (MediaType desc = MediaTypeImageIndex \<longrightarrow>
            Pull X w ref opts
              = (case findManifestForPlatform X w2 repo desc targetOS targetArch of
                   (Inl e, w3) \<Rightarrow> (Inl (Wrap ''failed to find manifest for platform'' e), w3)
                 | (Inr m, w3) \<Rightarrow> Pull_output X w3 repo m targetOS targetArch opts)
          \<and> Run X w ref args ropts
              = (case findManifestForPlatform X w2 repo desc targetOS targetArch of
                   (Inl e, w3) \<Rightarrow> (Some (Wrap ''failed to find manifest for platform'' e), w3)
                 | (Inr m, w3) \<Rightarrow>
                     (case Run_fetch_to_cache X w3 repo m cacheDir cachedBinary targetOS targetArch of
                        (Some e, w5) \<Rightarrow> (Some e, w5)
                      | (None, w5) \<Rightarrow> executeBinary w5 cachedBinary args (rUseExec ropts))))"
proof -
  note pull = Pull_after_resolve [OF assms(1,2,3,4)]
  have r: "createRepository X ref (rInsecure ropts) = Inr repo0"
          "setupAuth X w repo0 (rUsername ropts) (rPassword ropts) = (None, repo, w1)"
          "parsePlatform w (rPlatform ropts) = (targetOS, targetArch)"
    using assms(1,2,4,5) by simp_all
  note run = Run_after_resolve [OF r(1,2) assms(3) r(3) assms(6,7,8), of args]
  show ?thesis
  proof (intro conjI allI impI)
    assume m: "MediaType desc = MediaTypeImageManifest"
    then have s: "selectManifest X w2 repo desc targetOS targetArch = (Inr desc, w2)"
      using media_types_distinct by (simp add: selectManifest_def)
    show p: "Pull X w ref opts = Pull_output X w2 repo desc targetOS targetArch opts"
      unfolding pull s by simp
    show q: "Run X w ref args ropts
              = (case Run_fetch_to_cache X w2 repo desc cacheDir cachedBinary targetOS targetArch of
                   (Some e, w5) \<Rightarrow> (Some e, w5)
                 | (None, w5) \<Rightarrow> executeBinary w5 cachedBinary args (rUseExec ropts))"
      unfolding run s by simp
    {
      fix info w'
      assume "Pull X w ref opts = (Inr info, w')"
      then show "bDigest info = Digest desc"
        unfolding p using Pull_output_digest by blast
    }
    {
      fix e
      show "fst (Pull X w ref opts) \<noteq> Inl (Wrap ''failed to find manifest for platform'' e)"
        unfolding p by (rule Pull_output_not_platform_error)
      obtain r5 w5 where f: "Run_fetch_to_cache X w2 repo desc cacheDir cachedBinary targetOS targetArch
                               = (r5, w5)"
        by (cases "Run_fetch_to_cache X w2 repo desc cacheDir cachedBinary targetOS targetArch")
      show "fst (Run X w ref args ropts) \<noteq> Some (Wrap ''failed to find manifest for platform'' e)"
      proof (cases r5)
        case None
        then show ?thesis unfolding q f using executeBinary_not_platform_error by simp
      next
        case (Some e5)
        then show ?thesis unfolding q f
          using Run_fetch_to_cache_not_platform_error
                  [of X w2 repo desc cacheDir cachedBinary targetOS targetArch e] f
          by simp
      qed
    }
  next
    assume m: "MediaType desc \<noteq> MediaTypeImageIndex \<and> MediaType desc \<noteq> MediaTypeImageManifest"
    then have s: "selectManifest X w2 repo desc targetOS targetArch
                    = (Inl (ErrUnsupportedMediaType (MediaType desc)), w2)"
      by (simp add: selectManifest_def)
    show "Pull X w ref opts = (Inl (ErrUnsupportedMediaType (MediaType desc)), w2)"
      unfolding pull s by simp
    show "Run X w ref args ropts = (Some (ErrUnsupportedMediaType (MediaType desc)), w2)"
      unfolding run s by simp
  next
    assume m: "MediaType desc = MediaTypeImageIndex"
    then have s: "selectManifest X w2 repo desc targetOS targetArch
                    = (case findManifestForPlatform X w2 repo desc targetOS targetArch of
                         (Inl e, w') \<Rightarrow> (Inl (Wrap ''failed to find manifest for platform'' e), w')
                       | (Inr m, w') \<Rightarrow> (Inr m, w'))"
      by (simp add: selectManifest_def)
    show "Pull X w ref opts
              = (case findManifestForPlatform X w2 repo desc targetOS targetArch of
                   (Inl e, w3) \<Rightarrow> (Inl (Wrap ''failed to find manifest for platform'' e), w3)
                 | (Inr m, w3) \<Rightarrow> Pull_output X w3 repo m targetOS targetArch opts)"
      unfolding pull s by (simp split: prod.splits sum.splits)
    show "Run X w ref args ropts
              = (case findManifestForPlatform X w2 repo desc targetOS targetArch of
                   (Inl e, w3) \<Rightarrow> (Some (Wrap ''failed to find manifest for platform'' e), w3)
                 | (Inr m, w3) \<Rightarrow>
                     (case Run_fetch_to_cache X w3 repo m cacheDir cachedBinary targetOS targetArch of
                        (Some e, w5) \<Rightarrow> (Some e, w5)
                      | (None, w5) \<Rightarrow> executeBinary w5 cachedBinary args (rUseExec ropts)))"
      unfolding run s by (simp split: prod.splits sum.splits)
  qed
qed

lemma parsePlatform_loop_no_slash:
  "CHR ''/'' \<notin> set s \<Longrightarrow> parsePlatform_loop pre s = None"
  by (induction s arbitrary: pre) auto

lemma parsePlatform_no_slash:
  "CHR ''/'' \<notin> set s \<Longrightarrow> parsePlatform w s = (GOOS w, GOARCH w)"
  by (simp add: parsePlatform_def parsePlatform_loop_no_slash)

text \<open>
  C9. For every non-empty platform string without a slash, parsePlatform (in both
  packages) returns the host's own OS and architecture, the same as for the empty string,
  and Pull and Run behave exactly as if no platform had been requested.
\<close>

theorem platform_without_slash_falls_back_to_host:
  assumes "platform \<noteq> []" and "CHR ''/'' \<notin> set platform"
  shows "parsePlatform w platform = (GOOS w, GOARCH w)
       \<and> cmd_parsePlatform w platform = (GOOS w, GOARCH w)
       \<and> parsePlatform w platform = parsePlatform w []
       \<and> Pull X w ref (opts\<lparr>pPlatform := platform\<rparr>) = Pull X w ref (opts\<lparr>pPlatform := []\<rparr>)
       \<and> Run X w ref args (ropts\<lparr>rPlatform := platform\<rparr>) = Run X w ref args (ropts\<lparr>rPlatform := []\<rparr>)"
proof -
  have p: "parsePlatform w platform = (GOOS w, GOARCH w)"
    using assms(2) by (rule parsePlatform_no_slash)
  have e: "parsePlatform w [] = (GOOS w, GOARCH w)"
    by (simp add: parsePlatform_def)
  have c: "cmd_parsePlatform w platform = (GOOS w, GOARCH w)"
    using assms(2) by (simp add: cmd_parsePlatform_def parsePlatform_loop_no_slash)
  have pull: "Pull X w ref (opts\<lparr>pPlatform := platform\<rparr>) = Pull X w ref (opts\<lparr>pPlatform := []\<rparr>)"
    unfolding Pull_def Pull_output_def
    by (simp add: p e split del: if_split cong: sum.case_cong option.case_cong prod.case_cong if_cong)
  have run: "Run X w ref args (ropts\<lparr>rPlatform := platform\<rparr>) = Run X w ref args (ropts\<lparr>rPlatform := []\<rparr>)"
    unfolding Run_def Run_download_def
    by (simp add: p e split del: if_split cong: sum.case_cong option.case_cong prod.case_cong if_cong)
  show ?thesis using p e c pull run by simp
qed

lemma repo_Fetch_error:
  "repo_Fetch w repo d = (Inl e, w') \<Longrightarrow> e = ErrNotFound (Digest d)"
  by (auto simp: repo_Fetch_def Let_def split: option.splits)

lemma repo_Fetch_trace:
  "repo_Fetch w repo d = (r, w') \<Longrightarrow>
     w' = log_event (EvFetch (Registry (Ref repo)) (Repository (Ref repo)) (Digest d)) w"
  by (auto simp: repo_Fetch_def Let_def split: option.splits)

lemma write_file_error:
  "fst (write_file w p b) \<noteq> Some ErrNoLayers"
  by (simp add: write_file_def)

lemma pullBinary_no_layers_iff:
  assumes "repo_Fetch w repo manifestDesc = (Inr manifestBytes, w1)"
    and "unmarshal_Manifest X manifestBytes = Some m"
  shows "(fst (pullBinary X w repo manifestDesc output) = Some ErrNoLayers) = (Layers m = [])"
proof (cases "Layers m")
  case Nil
  then show ?thesis using assms by (simp add: pullBinary_def)
next
  case (Cons l ls)
  obtain r w2 where f: "repo_Fetch w1 repo l = (r, w2)" by (cases "repo_Fetch w1 repo l")
  show ?thesis
  proof (cases r)
    case (Inl e)
    then have "e = ErrNotFound (Digest l)" using f repo_Fetch_error by blast
    then show ?thesis using assms Cons f Inl by (simp add: pullBinary_def)
  next
    case (Inr b)
    then show ?thesis using assms Cons f
      by (auto simp: pullBinary_def Let_def os_MkdirAll_def write_file_def split: option.splits)
  qed
qed

text \<open>
  C7. Once the selected manifest has been fetched and decoded, pullBinary fails with the
  manifest-has-no-layers error if and only if the layers list is empty. Otherwise it
  requests exactly the manifest and the first layer from the registry, and (when the
  layer is there and the output file can be created) writes the first layer's bytes to the
  output path and reports no error, whatever further layers the manifest lists.
\<close>

theorem pullBinary_first_layer_only:
  assumes "repo_Fetch w repo manifestDesc = (Inr manifestBytes, w1)"
    and "unmarshal_Manifest X manifestBytes = Some m"
  shows "((fst (pullBinary X w repo manifestDesc output) = Some ErrNoLayers) = (Layers m = []))
       \<and> (\<forall>layerDesc rest layerBytes w2.
             Layers m = layerDesc # rest
             \<and> repo_Fetch w1 repo layerDesc = (Inr layerBytes, w2)
             \<and> \<not> mkdir_fails w (filepath_Dir output) \<and> \<not> create_fails w output
           \<longrightarrow> pullBinary X w repo manifestDesc output
                 = (None, w2\<lparr>files := (files w2)(output \<mapsto> layerBytes)\<rparr>)
               \<and> trace w2 = trace w @
                    [EvFetch (Registry (Ref repo)) (Repository (Ref repo)) (Digest manifestDesc),
                     EvFetch (Registry (Ref repo)) (Repository (Ref repo)) (Digest layerDesc)])"
proof (intro conjI allI impI)
  show "(fst (pullBinary X w repo manifestDesc output) = Some ErrNoLayers) = (Layers m = [])"
    using assms by (rule pullBinary_no_layers_iff)
next
  fix layerDesc rest layerBytes w2
  assume a: "Layers m = layerDesc # rest
             \<and> repo_Fetch w1 repo layerDesc = (Inr layerBytes, w2)
             \<and> \<not> mkdir_fails w (filepath_Dir output) \<and> \<not> create_fails w output"
  have w1: "w1 = log_event (EvFetch (Registry (Ref repo)) (Repository (Ref repo)) (Digest manifestDesc)) w"
    using assms(1) by (rule repo_Fetch_trace)
  have w2: "w2 = log_event (EvFetch (Registry (Ref repo)) (Repository (Ref repo)) (Digest layerDesc)) w1"
    using a repo_Fetch_trace by blast
  show "pullBinary X w repo manifestDesc output
          = (None, w2\<lparr>files := (files w2)(output \<mapsto> layerBytes)\<rparr>)"
    using assms a unfolding w1 w2
    by (simp add: pullBinary_def Let_def os_MkdirAll_def write_file_def log_event_def)
  show "trace w2 = trace w @
          [EvFetch (Registry (Ref repo)) (Repository (Ref repo)) (Digest manifestDesc),
           EvFetch (Registry (Ref repo)) (Repository (Ref repo)) (Digest layerDesc)]"
    unfolding w2 w1 by (simp add: log_event_def)
qed

text \<open>
  C5. When the explicit username and password are both non-empty, setupAuth does not
  touch the world (the credential file is not read, in whatever state it is) and the
  client is configured with exactly that pair; the credential file is read only when one
  of the two explicit fields is empty.
\<close>

theorem explicit_credentials_take_precedence:
  "(username \<noteq> [] \<and> password \<noteq> [] \<longrightarrow>
      setupAuth X w repo username password
        = (None, repo\<lparr>Client := Some \<lparr>Username = username, Password = password\<rparr>\<rparr>, w))
   \<and> (trace (snd (snd (setupAuth X w repo username password))) \<noteq> trace w \<longrightarrow>
      username = [] \<or> password = [])"
  by (auto simp: setupAuth_def)

lemma lookup_keys_None_iff:
  "(lookup_keys X auths keys = None) = (\<forall>key\<in>set keys. entry_unusable X auths key)"
  by (induction keys) (auto simp: entry_unusable_def splitN2_colon_def split: option.splits)

text \<open>
  C8. When caching is enabled and the cache-slot binary file exists, Run is exactly the
  execution of that file: it adds no registry request (no resolve, no fetch) and no read
  of the credential file to the trace, and changes neither the files nor the registries.
  The hypotheses mention the binary file only, so the state of the metadata file is
  irrelevant.
\<close>

theorem run_cache_hit_short_circuit:
  assumes "getCacheDir w (rCacheDir opts) = Inr cacheDir"
    and "createRepository X ref (rInsecure opts) = Inr repo"
    and "parsePlatform w (rPlatform opts) = (targetOS, targetArch)"
    and "cachedBinary = getCachePathForRef cacheDir (Registry (Ref repo)) (Repository (Ref repo))
                          (Reference (Ref repo)) targetOS targetArch"
    and "\<not> rNoCache opts"
    and "files w cachedBinary = Some content"
  shows "Run X w ref args opts = executeBinary w cachedBinary args (rUseExec opts)
       \<and> filter is_registry_op (trace (snd (Run X w ref args opts))) = filter is_registry_op (trace w)
       \<and> (\<forall>p. EvReadDockerConfig p \<in> set (trace (snd (Run X w ref args opts)))
              \<longrightarrow> EvReadDockerConfig p \<in> set (trace w))
       \<and> files (snd (Run X w ref args opts)) = files w
       \<and> stores (snd (Run X w ref args opts)) = stores w"
proof -
  have r: "Run X w ref args opts = executeBinary w cachedBinary args (rUseExec opts)"
    using assms by (simp add: Run_def os_Stat_def Let_def)
  show ?thesis unfolding r
    by (auto simp: executeBinary_def log_event_def Let_def split: option.splits run_result.splits)
qed

text \<open>
  On a linux/amd64 host the platform string linuxamd64 is read as linux/amd64.
\<close>

theorem platform_without_slash_falls_back_to_host_witness:
  "parsePlatform ex_world ''linuxamd64'' = (''linux'', ''amd64'')
   \<and> cmd_parsePlatform ex_world ''linuxamd64'' = (''linux'', ''amd64'')"
  using platform_without_slash_falls_back_to_host [of "''linuxamd64''" ex_world]
  by (simp add: ex_world_def)

text \<open>
  C6. Authentication setup always returns success, and the credential lookup has no
  error result: it reports absent when the home directory is unknown, when the file is
  missing or unreadable, when it is not valid JSON, and when every candidate key is
  unusable (no entry, an empty auth value, an auth value that is not valid base64, or a
  decoded value without a colon). When the lookup reports absent and an explicit field is
  empty, the repository keeps the client it had (none, for a fresh repository).
\<close>

theorem ambient_credentials_never_fail:
  "fst (setupAuth X w repo username password) = None
   \<and> (home w = None \<longrightarrow> fst (getDockerCredentials X w registry) = None)
   \<and> (\<forall>homeDir. home w = Some homeDir \<and> files w (dockerConfigPath homeDir) = None
         \<longrightarrow> fst (getDockerCredentials X w registry) = None)
   \<and> (\<forall>homeDir data. home w = Some homeDir \<and> files w (dockerConfigPath homeDir) = Some data
           \<and> unmarshal_dockerConfig X data = None
         \<longrightarrow> fst (getDockerCredentials X w registry) = None)
   \<and> (\<forall>homeDir data auths. home w = Some homeDir
           \<and> files w (dockerConfigPath homeDir) = Some data
           \<and> unmarshal_dockerConfig X data = Some auths
           \<and> (\<forall>key\<in>set (registryKeys registry). entry_unusable X auths key)
         \<longrightarrow> fst (getDockerCredentials X w registry) = None)
   \<and> (fst (getDockerCredentials X w (Registry (Ref repo))) = None
        \<and> (username = [] \<or> password = [])
       \<longrightarrow> fst (snd (setupAuth X w repo username password)) = repo)"
proof (intro conjI impI allI)
  show "fst (setupAuth X w repo username password) = None"
    by (simp add: setupAuth_def Let_def split: prod.splits option.splits)
next
  assume "home w = None"
  then show "fst (getDockerCredentials X w registry) = None"
    by (simp add: getDockerCredentials_def os_UserHomeDir_def)
next
  fix homeDir
  assume "home w = Some homeDir \<and> files w (dockerConfigPath homeDir) = None"
  then show "fst (getDockerCredentials X w registry) = None"
    by (simp add: getDockerCredentials_def os_UserHomeDir_def os_ReadFile_def Let_def
          dockerConfigPath_def)
next
  fix homeDir data
  assume "home w = Some homeDir \<and> files w (dockerConfigPath homeDir) = Some data
           \<and> unmarshal_dockerConfig X data = None"
  then show "fst (getDockerCredentials X w registry) = None"
    by (simp add: getDockerCredentials_def os_UserHomeDir_def os_ReadFile_def Let_def
          dockerConfigPath_def)
next
  fix homeDir data auths
  assume "home w = Some homeDir
           \<and> files w (dockerConfigPath homeDir) = Some data
           \<and> unmarshal_dockerConfig X data = Some auths
           \<and> (\<forall>key\<in>set (registryKeys registry). entry_unusable X auths key)"
  then show "fst (getDockerCredentials X w registry) = None"
    by (simp add: getDockerCredentials_def os_UserHomeDir_def os_ReadFile_def Let_def
          dockerConfigPath_def lookup_keys_None_iff)
next
  assume a: "fst (getDockerCredentials X w (Registry (Ref repo))) = None
        \<and> (username = [] \<or> password = [])"
  obtain w1 where "getDockerCredentials X w (Registry (Ref repo)) = (None, w1)"
    using a by (cases "getDockerCredentials X w (Registry (Ref repo))") auto
  then show "fst (snd (setupAuth X w repo username password)) = repo"
    using a by (auto simp: setupAuth_def)
qed

lemma ex_config_path: "dockerConfigPath ''/home/u'' = ''/home/u/.docker/config.json''"
  by (simp add: dockerConfigPath_def filepath_Join_def filepath_Clean_def Let_def)

lemma ex_cache_path:
  "getCachePathForRef ''/home/u/.cache/bolter'' ''reg.io'' ''app'' ''v1'' ''linux'' ''amd64''
     = ''/home/u/.cache/bolter/reg.io/app/v1/linux-amd64''"
  by (simp add: getCachePathForRef_def filepath_Join_def filepath_Clean_def Let_def
        strings_ReplaceAll_char_def)

lemma ex_cache_dir: "getCacheDir ex_world [] = Inr ''/home/u/.cache/bolter''"
  by (simp add: getCacheDir_def os_UserHomeDir_def ex_world_def filepath_Join_def
        filepath_Clean_def Let_def)

lemma ex_ambient:
  "fst (getDockerCredentials ex_extern ex_world ''reg.io'') = Some (''user'', ''pass'')"
  by (simp add: getDockerCredentials_def os_UserHomeDir_def os_ReadFile_def Let_def
        ex_world_def ex_extern_def ex_config_path [unfolded dockerConfigPath_def]
        registryKeys_def splitN2_colon_def)

text \<open>
  The credential file has an entry for reg.io (user:pass), and the explicit pair
  alice/secret is the one the client gets.
\<close>

theorem explicit_credentials_take_precedence_witness:
  "fst (getDockerCredentials ex_extern ex_world ''reg.io'') = Some (''user'', ''pass'')
   \<and> setupAuth ex_extern ex_world ex_repo ''alice'' ''secret''
       = (None, ex_repo\<lparr>Client := Some \<lparr>Username = ''alice'', Password = ''secret''\<rparr>\<rparr>, ex_world)"
  using explicit_credentials_take_precedence
          [of "''alice''" "''secret''" ex_extern ex_world ex_repo, THEN conjunct1]
        ex_ambient
  by simp

text \<open>
  No home directory, no file, a file that is not JSON, and a file whose entries are not
  base64 or lack a colon: the lookup is absent each time, and setupAuth succeeds.
\<close>

theorem ambient_credentials_never_fail_witness:
  "fst (getDockerCredentials ex_extern (ex_world\<lparr>home := None\<rparr>) ''reg.io'') = None
   \<and> fst (getDockerCredentials ex_extern (ex_world\<lparr>files := Map.empty\<rparr>) ''reg.io'') = None
   \<and> fst (getDockerCredentials ex_extern
             (ex_world\<lparr>files := [''/home/u/.docker/config.json'' \<mapsto> ''not json'']\<rparr>) ''reg.io'') = None
   \<and> fst (getDockerCredentials ex_extern ex_world_bad_config ''reg.io'') = None
   \<and> setupAuth ex_extern ex_world_bad_config ex_repo [] []
       = (None, ex_repo, snd (getDockerCredentials ex_extern ex_world_bad_config ''reg.io''))"
proof -
  note t = ambient_credentials_never_fail [of ex_extern _ ex_repo "[]" "[]" "''reg.io''"]
  have 1: "fst (getDockerCredentials ex_extern (ex_world\<lparr>home := None\<rparr>) ''reg.io'') = None"
    using t [of "ex_world\<lparr>home := None\<rparr>"] by simp
  have 2: "fst (getDockerCredentials ex_extern (ex_world\<lparr>files := Map.empty\<rparr>) ''reg.io'') = None"
    using t [of "ex_world\<lparr>files := Map.empty\<rparr>"] by (simp add: ex_world_def)
  have 3: "fst (getDockerCredentials ex_extern
             (ex_world\<lparr>files := [''/home/u/.docker/config.json'' \<mapsto> ''not json'']\<rparr>) ''reg.io'') = None"
    using t [of "ex_world\<lparr>files := [''/home/u/.docker/config.json'' \<mapsto> ''not json'']\<rparr>"]
    by (simp add: ex_world_def ex_config_path ex_extern_def)
  have keys: "\<forall>key\<in>set (registryKeys ''reg.io'').
          entry_unusable ex_extern [''reg.io'' \<mapsto> ''!!'', ''https://reg.io'' \<mapsto> ''bm9jb2xvbg==''] key"
    by (simp add: registryKeys_def normalizeRegistry_def strings_TrimPrefix_def
          strings_HasPrefix_def entry_unusable_def ex_extern_def)
  have 4: "fst (getDockerCredentials ex_extern ex_world_bad_config ''reg.io'') = None"
    using t [of ex_world_bad_config] keys
    by (simp add: ex_world_bad_config_def ex_world_def ex_config_path ex_extern_def)
  have 5: "fst (snd (setupAuth ex_extern ex_world_bad_config ex_repo [] [])) = ex_repo"
    using t [of ex_world_bad_config] 4 by (simp add: ex_repo_def)
  have 6: "fst (setupAuth ex_extern ex_world_bad_config ex_repo [] []) = None"
    using t [of ex_world_bad_config] by simp
  have 7: "snd (snd (setupAuth ex_extern ex_world_bad_config ex_repo [] []))
             = snd (getDockerCredentials ex_extern ex_world_bad_config ''reg.io'')"
    by (simp add: setupAuth_def ex_repo_def split: prod.splits option.splits)
  have "setupAuth ex_extern ex_world_bad_config ex_repo [] []
       = (None, ex_repo, snd (getDockerCredentials ex_extern ex_world_bad_config ''reg.io''))"
    using 5 6 7 by (metis prod.collapse)
  then show ?thesis using 1 2 3 4 by simp
qed

lemma ex_fetch_m1:
  "repo_Fetch ex_world ex_repo (ex_desc MediaTypeImageManifest ''sha256:m1'' None)
     = (Inr ''m1'', log_event (EvFetch ''reg.io'' ''app'' ''sha256:m1'') ex_world)"
  by (simp add: repo_Fetch_def repo_store_def store_lookup_def is_manifest_type_def MediaTypeImageIndex_def
          MediaTypeImageManifest_def ex_world_def ex_repo_def ex_desc_def ex_store_def Let_def)

lemma ex_fetch_m0:
  "repo_Fetch ex_world ex_repo (ex_desc MediaTypeImageManifest ''sha256:m0'' None)
     = (Inr ''m0'', log_event (EvFetch ''reg.io'' ''app'' ''sha256:m0'') ex_world)"
  by (simp add: repo_Fetch_def repo_store_def store_lookup_def is_manifest_type_def MediaTypeImageIndex_def
          MediaTypeImageManifest_def ex_world_def ex_repo_def ex_desc_def ex_store_def Let_def)

text \<open>
  A manifest without layers fails; a manifest whose second layer is not even in the
  registry yields the first layer's bytes.
\<close>

theorem pullBinary_first_layer_only_witness:
  "fst (pullBinary ex_extern ex_world ex_repo (ex_desc MediaTypeImageManifest ''sha256:m0'' None)
          ''out/app'') = Some ErrNoLayers
   \<and> fst (pullBinary ex_extern ex_world ex_repo (ex_desc MediaTypeImageManifest ''sha256:m1'' None)
          ''out/app'') = None
   \<and> files (snd (pullBinary ex_extern ex_world ex_repo
                   (ex_desc MediaTypeImageManifest ''sha256:m1'' None) ''out/app'')) ''out/app''
       = Some ''TEST''"
proof -
  have u0: "unmarshal_Manifest ex_extern ''m0'' = Some \<lparr>Config = ex_config, Layers = []\<rparr>"
    by (simp add: ex_extern_def)
  have u1: "unmarshal_Manifest ex_extern ''m1'' = Some ex_manifest"
    by (simp add: ex_extern_def)
  have a: "fst (pullBinary ex_extern ex_world ex_repo (ex_desc MediaTypeImageManifest ''sha256:m0'' None)
          ''out/app'') = Some ErrNoLayers"
    using pullBinary_first_layer_only [OF ex_fetch_m0 u0, of "''out/app''"] by simp
  have l: "repo_Fetch (log_event (EvFetch ''reg.io'' ''app'' ''sha256:m1'') ex_world) ex_repo ex_layer
             = (Inr ''TEST'', log_event (EvFetch ''reg.io'' ''app'' ''sha256:l1'')
                  (log_event (EvFetch ''reg.io'' ''app'' ''sha256:m1'') ex_world))"
    by (simp add: repo_Fetch_def repo_store_def store_lookup_def is_manifest_type_def MediaTypeImageIndex_def
          MediaTypeImageManifest_def ex_world_def ex_repo_def ex_layer_def ex_store_def
          Let_def log_event_def)
  have b: "pullBinary ex_extern ex_world ex_repo (ex_desc MediaTypeImageManifest ''sha256:m1'' None)
          ''out/app'' = (None, (log_event (EvFetch ''reg.io'' ''app'' ''sha256:l1'')
                  (log_event (EvFetch ''reg.io'' ''app'' ''sha256:m1'') ex_world))
             \<lparr>files := (files (log_event (EvFetch ''reg.io'' ''app'' ''sha256:l1'')
                  (log_event (EvFetch ''reg.io'' ''app'' ''sha256:m1'') ex_world)))(''out/app'' \<mapsto> ''TEST'')\<rparr>)"
    using pullBinary_first_layer_only [OF ex_fetch_m1 u1, of "''out/app''", THEN conjunct2,
            THEN spec, THEN spec, THEN spec, THEN spec,
            of ex_layer "[ex_layer_extra]" "''TEST''"
               "log_event (EvFetch ''reg.io'' ''app'' ''sha256:l1'')
                  (log_event (EvFetch ''reg.io'' ''app'' ''sha256:m1'') ex_world)"] l
    by (simp add: ex_manifest_def ex_world_def)
  show ?thesis using a b by simp
qed

text \<open>
  With the binary cached, Run launches it and asks the registry nothing.
\<close>

theorem run_cache_hit_short_circuit_witness:
  "Run ex_extern ex_world ''reg.io/app:v1'' [''--help''] ex_run_opts
     = (None, log_event (EvCommandRun ''/home/u/.cache/bolter/reg.io/app/v1/linux-amd64'' [''--help''])
                ex_world)"
proof -
  have c: "getCacheDir ex_world (rCacheDir ex_run_opts) = Inr ''/home/u/.cache/bolter''"
    using ex_cache_dir by (simp add: ex_run_opts_def)
  have r: "createRepository ex_extern ''reg.io/app:v1'' (rInsecure ex_run_opts) = Inr ex_repo"
    by (simp add: createRepository_def ex_extern_def ex_repo_def ex_run_opts_def Let_def
          strings_HasPrefix_def)
  have p: "parsePlatform ex_world (rPlatform ex_run_opts) = (''linux'', ''amd64'')"
    by (simp add: parsePlatform_def ex_run_opts_def)
  have b: "''/home/u/.cache/bolter/reg.io/app/v1/linux-amd64''
             = getCachePathForRef ''/home/u/.cache/bolter'' (Registry (Ref ex_repo))
                 (Repository (Ref ex_repo)) (Reference (Ref ex_repo)) ''linux'' ''amd64''"
    using ex_cache_path by (simp add: ex_repo_def)
  have n: "\<not> rNoCache ex_run_opts" by (simp add: ex_run_opts_def)
  have f: "files ex_world ''/home/u/.cache/bolter/reg.io/app/v1/linux-amd64'' = Some ''OLD''"
    by (simp add: ex_world_def)
  have "Run ex_extern ex_world ''reg.io/app:v1'' [''--help''] ex_run_opts
          = executeBinary ex_world ''/home/u/.cache/bolter/reg.io/app/v1/linux-amd64'' [''--help'']
              (rUseExec ex_run_opts)"
    using run_cache_hit_short_circuit [OF c r p b n f] by simp
  then show ?thesis
    by (simp add: executeBinary_def ex_world_def ex_run_opts_def Let_def)
qed

lemma ex_world_tagged_index:
  "ex_world = ex_world_tagged (ex_desc MediaTypeImageIndex ''sha256:idx'' None)"
  by (simp add: ex_world_tagged_def ex_world_def ex_store_def)

lemma ex_create:
  "createRepository ex_extern ''reg.io/app:v1'' False = Inr ex_repo"
  by (simp add: createRepository_def ex_extern_def ex_repo_def Let_def strings_HasPrefix_def)

lemma ex_auth:
  "setupAuth ex_extern (ex_world_tagged d) ex_repo [] []
     = (None, ex_repo_auth,
        log_event (EvReadDockerConfig ''/home/u/.docker/config.json'') (ex_world_tagged d))"
  by (simp add: setupAuth_def getDockerCredentials_def os_UserHomeDir_def os_ReadFile_def Let_def
        ex_world_tagged_def ex_world_def ex_extern_def ex_repo_def ex_repo_auth_def
        ex_config_path [unfolded dockerConfigPath_def] registryKeys_def splitN2_colon_def)

lemma ex_resolve:
  "repo_Resolve (log_event ev (ex_world_tagged d)) ex_repo_auth (Reference (Ref ex_repo_auth))
     = (Inr d, log_event (EvResolve ''reg.io'' ''app'' ''v1'') (log_event ev (ex_world_tagged d)))"
  by (simp add: repo_Resolve_def repo_store_def Let_def log_event_def ex_world_tagged_def
        ex_world_def ex_repo_auth_def ex_repo_def)

lemma ex_fetch_index:
  "repo_Fetch (log_event ev2 (log_event ev (ex_world_tagged d))) ex_repo_auth
       (ex_desc MediaTypeImageIndex ''sha256:idx'' None)
     = (Inr ''idx'', log_event (EvFetch ''reg.io'' ''app'' ''sha256:idx'')
                       (log_event ev2 (log_event ev (ex_world_tagged d))))"
  by (simp add: repo_Fetch_def repo_store_def store_lookup_def is_manifest_type_def
        MediaTypeImageIndex_def MediaTypeImageManifest_def ex_world_tagged_def ex_world_def
        ex_repo_auth_def ex_repo_def ex_desc_def ex_store_def Let_def log_event_def)

lemma ex_cache_path_custom:
  "getCachePathForRef ''/cache'' (Registry (Ref ex_repo)) (Repository (Ref ex_repo))
      (Reference (Ref ex_repo)) ''linux'' ''amd64'' = ''/cache/reg.io/app/v1/linux-amd64''"
  "getCachePathForRef ''/cache'' (Registry (Ref ex_repo)) (Repository (Ref ex_repo))
      (Reference (Ref ex_repo)) ''plan9'' ''386'' = ''/cache/reg.io/app/v1/plan9-386''"
  "getCachePathForRef ''/cache'' (Registry (Ref ex_repo)) (Repository (Ref ex_repo))
      (Reference (Ref ex_repo)) ''no-such-os'' ''no-such-arch''
     = ''/cache/reg.io/app/v1/no-such-os-no-such-arch''"
  by (simp_all add: getCachePathForRef_def filepath_Join_def filepath_Clean_def Let_def
        strings_ReplaceAll_char_def ex_repo_def)

lemma ex_parse:
  "parsePlatform w ''linux/amd64'' = (''linux'', ''amd64'')"
  "parsePlatform w ''plan9/386'' = (''plan9'', ''386'')"
  "parsePlatform w ''no-such-os/no-such-arch'' = (''no-such-os'', ''no-such-arch'')"
  by (simp_all add: parsePlatform_def)

lemma ex_pull_output_m1:
  "fst (Pull_output ex_extern ex_w3 ex_repo_auth
          (ex_desc MediaTypeImageManifest ''sha256:m1'' (Some \<lparr>OS = ''linux'', Architecture = ''amd64''\<rparr>))
          ''linux'' ''amd64'' ex_pull_opts)
     = Inr \<lparr>Path = ''out/app'', bDigest = ''sha256:m1'', bSize = 4, bOS = ''linux'',
            bArchitecture = ''amd64'', Cached = False\<rparr>"
  by (simp add: Pull_output_def pullBinary_def repo_Fetch_def repo_store_def store_lookup_def
        is_manifest_type_def MediaTypeImageIndex_def MediaTypeImageManifest_def
        os_MkdirAll_def os_Chmod_def os_Stat_def write_file_def log_event_def Let_def
        ex_w3_def ex_world_def ex_repo_auth_def ex_repo_def ex_store_def ex_extern_def
        ex_desc_def ex_manifest_def ex_layer_def ex_pull_opts_def
        filepath_Dir_def filepath_Clean_def)

text \<open>
  An index with an entry without platform, two entries for linux/amd64 and one for
  linux/arm64: Pull for linux/amd64 reports the digest of the first linux/amd64 entry,
  and Pull and Run for plan9/386 find no manifest.
\<close>

theorem pull_run_select_first_matching_platform_witness:
  "fst (Pull ex_extern ex_world ''reg.io/app:v1'' ex_pull_opts)
     = Inr \<lparr>Path = ''out/app'', bDigest = ''sha256:m1'', bSize = 4, bOS = ''linux'',
            bArchitecture = ''amd64'', Cached = False\<rparr>
   \<and> Pull ex_extern ex_world ''reg.io/app:v1'' (ex_pull_opts\<lparr>pPlatform := ''plan9/386''\<rparr>)
     = (Inl (Wrap ''failed to find manifest for platform'' (ErrNoManifestFound ''plan9'' ''386'')),
        ex_w3)
   \<and> Run ex_extern ex_world ''reg.io/app:v1'' [] (ex_run_opts_nocache\<lparr>rPlatform := ''plan9/386''\<rparr>)
     = (Some (Wrap ''failed to find manifest for platform'' (ErrNoManifestFound ''plan9'' ''386'')),
        ex_w3)"
proof -
  let ?d = "ex_desc MediaTypeImageIndex ''sha256:idx'' None"
  have cr: "createRepository ex_extern ''reg.io/app:v1'' (pInsecure (ex_pull_opts\<lparr>pPlatform := p\<rparr>))
              = Inr ex_repo" for p
    using ex_create by (simp add: ex_pull_opts_def)
  have au: "setupAuth ex_extern ex_world ex_repo (pUsername (ex_pull_opts\<lparr>pPlatform := p\<rparr>))
              (pPassword (ex_pull_opts\<lparr>pPlatform := p\<rparr>))
            = (None, ex_repo_auth,
               log_event (EvReadDockerConfig ''/home/u/.docker/config.json'') ex_world)" for p
    using ex_auth [of ?d] by (simp add: ex_pull_opts_def ex_world_tagged_index [symmetric])
  have rs: "repo_Resolve (log_event (EvReadDockerConfig ''/home/u/.docker/config.json'') ex_world)
              ex_repo_auth (Reference (Ref ex_repo_auth))
            = (Inr ?d, log_event (EvResolve ''reg.io'' ''app'' ''v1'')
                 (log_event (EvReadDockerConfig ''/home/u/.docker/config.json'') ex_world))"
    using ex_resolve [of _ ?d] by (simp add: ex_world_tagged_index [symmetric])
  have mt: "MediaType ?d = MediaTypeImageIndex" by (simp add: ex_desc_def)
  have fe: "repo_Fetch (log_event (EvResolve ''reg.io'' ''app'' ''v1'')
                 (log_event (EvReadDockerConfig ''/home/u/.docker/config.json'') ex_world))
              ex_repo_auth ?d = (Inr ''idx'', ex_w3)"
    using ex_fetch_index [of _ _ ?d] by (simp add: ex_world_tagged_index [symmetric] ex_w3_def)
  have um: "unmarshal_Index ex_extern ''idx'' = Some ex_index" by (simp add: ex_extern_def)
  have pp: "parsePlatform ex_world (pPlatform (ex_pull_opts\<lparr>pPlatform := ''linux/amd64''\<rparr>))
              = (''linux'', ''amd64'')"
           "parsePlatform ex_world (pPlatform (ex_pull_opts\<lparr>pPlatform := ''plan9/386''\<rparr>))
              = (''plan9'', ''386'')"
    by (simp_all add: ex_parse)
  have ag: "rPlatform (ex_run_opts_nocache\<lparr>rPlatform := p\<rparr>) = pPlatform (ex_pull_opts\<lparr>pPlatform := p\<rparr>)
            \<and> rUsername (ex_run_opts_nocache\<lparr>rPlatform := p\<rparr>) = pUsername (ex_pull_opts\<lparr>pPlatform := p\<rparr>)
            \<and> rPassword (ex_run_opts_nocache\<lparr>rPlatform := p\<rparr>) = pPassword (ex_pull_opts\<lparr>pPlatform := p\<rparr>)
            \<and> rInsecure (ex_run_opts_nocache\<lparr>rPlatform := p\<rparr>) = pInsecure (ex_pull_opts\<lparr>pPlatform := p\<rparr>)" for p
    by (simp add: ex_run_opts_nocache_def ex_pull_opts_def)
  have cd: "getCacheDir ex_world (rCacheDir (ex_run_opts_nocache\<lparr>rPlatform := p\<rparr>)) = Inr ''/cache''" for p
    by (simp add: getCacheDir_def ex_run_opts_nocache_def)
  have nc: "rNoCache (ex_run_opts_nocache\<lparr>rPlatform := p\<rparr>) \<or> os_Stat ex_world c = Inl (ErrNotExist c)" for p c
    by (simp add: ex_run_opts_nocache_def)
  note t1 = pull_run_select_first_matching_platform
              [OF cr au rs mt fe um pp(1) ag cd ex_cache_path_custom(1) [symmetric] nc, of "[]"]
  note t2 = pull_run_select_first_matching_platform
              [OF cr au rs mt fe um pp(2) ag cd ex_cache_path_custom(2) [symmetric] nc, of "[]"]
  have o: "ex_pull_opts\<lparr>pPlatform := ''linux/amd64''\<rparr> = ex_pull_opts"
    by (simp add: ex_pull_opts_def)
  have j: "\<forall>j<Suc 0. \<not> platform_matches (Manifests ex_index ! j) ''linux'' ''amd64''"
    by (simp add: ex_index_def ex_desc_def platform_matches_def)
  have a: "Pull ex_extern ex_world ''reg.io/app:v1'' ex_pull_opts
             = Pull_output ex_extern ex_w3 ex_repo_auth (Manifests ex_index ! Suc 0)
                 ''linux'' ''amd64'' ex_pull_opts"
    using t1 [THEN conjunct1, THEN spec, of "Suc 0"] j unfolding o
    by (simp add: ex_index_def ex_desc_def platform_matches_def)
  have a': "fst (Pull ex_extern ex_world ''reg.io/app:v1'' ex_pull_opts)
     = Inr \<lparr>Path = ''out/app'', bDigest = ''sha256:m1'', bSize = 4, bOS = ''linux'',
            bArchitecture = ''amd64'', Cached = False\<rparr>"
    unfolding a using ex_pull_output_m1 by (simp add: ex_index_def)
  have b: "Pull ex_extern ex_world ''reg.io/app:v1'' (ex_pull_opts\<lparr>pPlatform := ''plan9/386''\<rparr>)
     = (Inl (Wrap ''failed to find manifest for platform'' (ErrNoManifestFound ''plan9'' ''386'')),
        ex_w3)
   \<and> Run ex_extern ex_world ''reg.io/app:v1'' [] (ex_run_opts_nocache\<lparr>rPlatform := ''plan9/386''\<rparr>)
     = (Some (Wrap ''failed to find manifest for platform'' (ErrNoManifestFound ''plan9'' ''386'')),
        ex_w3)"
    using t2 [THEN conjunct2]
    by (simp add: ex_index_def ex_desc_def platform_matches_def)
  show ?thesis using a' b by simp
qed

text \<open>
  A tag that points to a bare manifest is pulled for a platform nobody built; a tag that
  points to a text/plain descriptor is refused by Pull and by Run.
\<close>

theorem pull_run_toplevel_media_type_witness:
  "Pull ex_extern (ex_world_tagged (ex_desc MediaTypeImageManifest ''sha256:m1'' None))
       ''reg.io/app:v1'' (ex_pull_opts\<lparr>pPlatform := ''no-such-os/no-such-arch''\<rparr>)
     = Pull_output ex_extern
         (log_event (EvResolve ''reg.io'' ''app'' ''v1'')
            (log_event (EvReadDockerConfig ''/home/u/.docker/config.json'')
               (ex_world_tagged (ex_desc MediaTypeImageManifest ''sha256:m1'' None))))
         ex_repo_auth (ex_desc MediaTypeImageManifest ''sha256:m1'' None)
         ''no-such-os'' ''no-such-arch'' (ex_pull_opts\<lparr>pPlatform := ''no-such-os/no-such-arch''\<rparr>)
   \<and> Pull ex_extern (ex_world_tagged (ex_desc ''text/plain'' ''sha256:m1'' None))
       ''reg.io/app:v1'' ex_pull_opts
     = (Inl (ErrUnsupportedMediaType ''text/plain''),
        log_event (EvResolve ''reg.io'' ''app'' ''v1'')
          (log_event (EvReadDockerConfig ''/home/u/.docker/config.json'')
             (ex_world_tagged (ex_desc ''text/plain'' ''sha256:m1'' None))))
   \<and> Run ex_extern (ex_world_tagged (ex_desc ''text/plain'' ''sha256:m1'' None))
       ''reg.io/app:v1'' [] ex_run_opts_nocache
     = (Some (ErrUnsupportedMediaType ''text/plain''),
        log_event (EvResolve ''reg.io'' ''app'' ''v1'')
          (log_event (EvReadDockerConfig ''/home/u/.docker/config.json'')
             (ex_world_tagged (ex_desc ''text/plain'' ''sha256:m1'' None))))"
proof -
  have cr: "createRepository ex_extern ''reg.io/app:v1'' (pInsecure (ex_pull_opts\<lparr>pPlatform := p\<rparr>))
              = Inr ex_repo" for p
    using ex_create by (simp add: ex_pull_opts_def)
  have au: "setupAuth ex_extern (ex_world_tagged d) ex_repo (pUsername (ex_pull_opts\<lparr>pPlatform := p\<rparr>))
              (pPassword (ex_pull_opts\<lparr>pPlatform := p\<rparr>))
            = (None, ex_repo_auth,
               log_event (EvReadDockerConfig ''/home/u/.docker/config.json'') (ex_world_tagged d))" for p d
    using ex_auth [of d] by (simp add: ex_pull_opts_def)
  have pp: "parsePlatform w (pPlatform (ex_pull_opts\<lparr>pPlatform := ''linux/amd64''\<rparr>))
              = (''linux'', ''amd64'')"
           "parsePlatform w (pPlatform (ex_pull_opts\<lparr>pPlatform := ''no-such-os/no-such-arch''\<rparr>))
              = (''no-such-os'', ''no-such-arch'')" for w
    by (simp_all add: ex_parse)
  have ag: "rPlatform (ex_run_opts_nocache\<lparr>rPlatform := p\<rparr>) = pPlatform (ex_pull_opts\<lparr>pPlatform := p\<rparr>)
            \<and> rUsername (ex_run_opts_nocache\<lparr>rPlatform := p\<rparr>) = pUsername (ex_pull_opts\<lparr>pPlatform := p\<rparr>)
            \<and> rPassword (ex_run_opts_nocache\<lparr>rPlatform := p\<rparr>) = pPassword (ex_pull_opts\<lparr>pPlatform := p\<rparr>)
            \<and> rInsecure (ex_run_opts_nocache\<lparr>rPlatform := p\<rparr>) = pInsecure (ex_pull_opts\<lparr>pPlatform := p\<rparr>)" for p
    by (simp add: ex_run_opts_nocache_def ex_pull_opts_def)
  have cd: "getCacheDir w (rCacheDir (ex_run_opts_nocache\<lparr>rPlatform := p\<rparr>)) = Inr ''/cache''" for p w
    by (simp add: getCacheDir_def ex_run_opts_nocache_def)
  have nc: "rNoCache (ex_run_opts_nocache\<lparr>rPlatform := p\<rparr>) \<or> os_Stat w c = Inl (ErrNotExist c)" for p c w
    by (simp add: ex_run_opts_nocache_def)
  have o: "ex_pull_opts\<lparr>pPlatform := ''linux/amd64''\<rparr> = ex_pull_opts"
          "ex_run_opts_nocache\<lparr>rPlatform := ''linux/amd64''\<rparr> = ex_run_opts_nocache"
    by (simp_all add: ex_pull_opts_def ex_run_opts_nocache_def)
  note t1 = pull_run_toplevel_media_type
              [OF cr au ex_resolve pp(2) ag cd ex_cache_path_custom(3) [symmetric] nc,
               of "ex_desc MediaTypeImageManifest ''sha256:m1'' None" "[]"]
  note t2 = pull_run_toplevel_media_type
              [OF cr au ex_resolve pp(1) ag cd ex_cache_path_custom(1) [symmetric] nc,
               of "ex_desc ''text/plain'' ''sha256:m1'' None" "[]"]
  have a: "Pull ex_extern (ex_world_tagged (ex_desc MediaTypeImageManifest ''sha256:m1'' None))
       ''reg.io/app:v1'' (ex_pull_opts\<lparr>pPlatform := ''no-such-os/no-such-arch''\<rparr>)
     = Pull_output ex_extern
         (log_event (EvResolve ''reg.io'' ''app'' ''v1'')
            (log_event (EvReadDockerConfig ''/home/u/.docker/config.json'')
               (ex_world_tagged (ex_desc MediaTypeImageManifest ''sha256:m1'' None))))
         ex_repo_auth (ex_desc MediaTypeImageManifest ''sha256:m1'' None)
         ''no-such-os'' ''no-such-arch'' (ex_pull_opts\<lparr>pPlatform := ''no-such-os/no-such-arch''\<rparr>)"
    using t1 [THEN conjunct1] by (simp add: ex_desc_def)
  have b: "Pull ex_extern (ex_world_tagged (ex_desc ''text/plain'' ''sha256:m1'' None))
       ''reg.io/app:v1'' ex_pull_opts
     = (Inl (ErrUnsupportedMediaType ''text/plain''),
        log_event (EvResolve ''reg.io'' ''app'' ''v1'')
          (log_event (EvReadDockerConfig ''/home/u/.docker/config.json'')
             (ex_world_tagged (ex_desc ''text/plain'' ''sha256:m1'' None))))
   \<and> Run ex_extern (ex_world_tagged (ex_desc ''text/plain'' ''sha256:m1'' None))
       ''reg.io/app:v1'' [] ex_run_opts_nocache
     = (Some (ErrUnsupportedMediaType ''text/plain''),
        log_event (EvResolve ''reg.io'' ''app'' ''v1'')
          (log_event (EvReadDockerConfig ''/home/u/.docker/config.json'')
             (ex_world_tagged (ex_desc ''text/plain'' ''sha256:m1'' None))))"
    using t2 [THEN conjunct2, THEN conjunct1] unfolding o
    by (simp add: ex_desc_def MediaTypeImageIndex_def MediaTypeImageManifest_def)
  show ?thesis using a b by simp
qed
















end
